theory Spec2Isabelle
  imports Complex_Main "HOL-Library.Sublist"
begin

section \<open>Python values and the standardized response\<close>

text \<open>
  The two scripts \<^verbatim>\<open>hetzner_cloud.py\<close> and \<^verbatim>\<open>proxmox_api.py\<close> build Python
  dictionaries and print them with \<^verbatim>\<open>json.dumps\<close>. A dictionary is modelled as an
  association list in insertion order (the order \<^verbatim>\<open>json.dumps\<close> emits), a Python value
  that ends up in a response as a \<open>json\<close> value; \<open>JNull\<close> is Python's \<^verbatim>\<open>None\<close>.
  The model of \<^verbatim>\<open>json_response\<close> returns the dictionary that is handed to
  \<^verbatim>\<open>json.dumps\<close>: the serialized document has exactly the keys of that dictionary.
\<close>

datatype json =
    JNull
  | JBool bool
  | JInt int
  | JStr string
  | JList "json list"
  | JObj "(string \<times> json) list"

type_synonym pydict = "(string \<times> json) list"

text \<open>Python truthiness, as \<^verbatim>\<open>if data:\<close> tests it.\<close>

fun truthy :: "json \<Rightarrow> bool" where
  "truthy JNull = False"
| "truthy (JBool b) = b"
| "truthy (JInt i) = (i \<noteq> 0)"
| "truthy (JStr s) = (s \<noteq> [])"
| "truthy (JList xs) = (xs \<noteq> [])"
| "truthy (JObj kvs) = (kvs \<noteq> [])"

text \<open>The keys of a dictionary, and \<^verbatim>\<open>d.get(k)\<close> on a value that is a dictionary.\<close>

fun keys :: "json \<Rightarrow> string list" where
  "keys (JObj kvs) = map fst kvs"
| "keys _ = []"

fun jget :: "string \<Rightarrow> json \<Rightarrow> json option" where
  "jget k (JObj kvs) = map_of kvs k"
| "jget k _ = None"

text \<open>
  \<^verbatim>\<open>json_response(success, data=None, error=None)\<close> of \<^verbatim>\<open>hetzner_cloud.py\<close>.
  The argument \<open>ts\<close> is the value of \<^verbatim>\<open>datetime.now().isoformat()\<close> when the
  response is built.
\<close>

definition json_response :: "string \<Rightarrow> bool \<Rightarrow> json \<Rightarrow> json \<Rightarrow> json" where
  "json_response ts success data error =
     JObj ([(''success'', JBool success), (''timestamp'', JStr ts)]
           @ (if truthy data then [(''data'', data)] else [])
           @ (if truthy error then [(''error'', error)] else []))"

text \<open>
  \<^verbatim>\<open>json_response(success, data=None, error=None, message=None)\<close> of
  \<^verbatim>\<open>proxmox_api.py\<close>.
\<close>

definition pve_json_response :: "string \<Rightarrow> bool \<Rightarrow> json \<Rightarrow> json \<Rightarrow> json \<Rightarrow> json" where
  "pve_json_response ts success data error message =
     JObj ([(''success'', JBool success), (''timestamp'', JStr ts)]
           @ (if truthy data then [(''data'', data)] else [])
           @ (if truthy error then [(''error'', error)] else [])
           @ (if truthy message then [(''message'', message)] else []))"

section \<open>Python builtins used by the scripts\<close>

text \<open>
  Exceptions are values. Each constructor is a subclass of Python's \<^verbatim>\<open>Exception\<close>
  and carries the text that \<^verbatim>\<open>str(e)\<close> yields; \<open>ProviderError\<close> stands for
  whatever the provider SDK raises (API, transport, authentication and action failures).
\<close>

datatype exn =
    ValueError string
  | AttributeError string
  | KeyError string
  | TypeError string
  | ProviderError string

fun str_exn :: "exn \<Rightarrow> string" where
  "str_exn (ValueError m) = m"
| "str_exn (AttributeError m) = m"
| "str_exn (KeyError m) = m"
| "str_exn (TypeError m) = m"
| "str_exn (ProviderError m) = m"

text \<open>\<^verbatim>\<open>str(n)\<close> of an integer, as an f-string formats it.\<close>

definition digit_char :: "nat \<Rightarrow> char" where
  "digit_char d = ''0123456789'' ! d"

function str_nat :: "nat \<Rightarrow> string" where
  "str_nat n = (if n < 10 then [digit_char n] else str_nat (n div 10) @ [digit_char (n mod 10)])"
  by pat_completeness auto
termination
  by (relation "measure (\<lambda>n. n)") auto

declare str_nat.simps [simp del]

definition str_int :: "int \<Rightarrow> string" where
  "str_int i = (if i < 0 then CHR ''-'' # str_nat (nat (- i)) else str_nat (nat i))"

text \<open>
  \<^verbatim>\<open>int(s)\<close> of a string, base 10, on ASCII input: surrounding whitespace is
  stripped, one sign is allowed, then digits, with single underscores between digits.
  Anything else raises \<^verbatim>\<open>ValueError\<close>. (Digits outside ASCII and the interpreter's
  limit on the number of digits are not modelled; the message quotes the literal without
  escaping.)
\<close>

definition is_py_space :: "char \<Rightarrow> bool" where
  "is_py_space c = (c \<in> set [CHR 0x09, CHR 0x0A, CHR 0x0B, CHR 0x0C, CHR 0x0D,
                             CHR 0x1C, CHR 0x1D, CHR 0x1E, CHR 0x1F, CHR 0x20])"

definition py_strip :: "string \<Rightarrow> string" where
  "py_strip s = rev (dropWhile is_py_space (rev (dropWhile is_py_space s)))"

definition is_digit :: "char \<Rightarrow> bool" where
  "is_digit c = (c \<in> set ''0123456789'')"

definition digit_val :: "char \<Rightarrow> nat" where
  "digit_val c = of_char c - 48"

fun parse_digits :: "nat \<Rightarrow> string \<Rightarrow> nat option" where
  "parse_digits acc [] = Some acc"
| "parse_digits acc (c # cs) =
     (if is_digit c then parse_digits (acc * 10 + digit_val c) cs
      else if c = CHR ''_'' then
        (case cs of
           [] \<Rightarrow> None
         | d # ds \<Rightarrow> if is_digit d then parse_digits (acc * 10 + digit_val d) ds else None)
      else None)"

definition invalid_literal :: "string \<Rightarrow> exn" where
  "invalid_literal s =
     ValueError (''invalid literal for int() with base 10: '' @ [CHR 0x27] @ s @ [CHR 0x27])"

definition parse_unsigned :: "string \<Rightarrow> nat option" where
  "parse_unsigned t =
     (case t of
        [] \<Rightarrow> None
      | c # cs \<Rightarrow> if is_digit c then parse_digits (digit_val c) cs else None)"

definition py_int :: "string \<Rightarrow> exn + int" where
  "py_int s =
     (case py_strip s of
        [] \<Rightarrow> Inl (invalid_literal s)
      | c # cs \<Rightarrow>
          if c = CHR ''-'' then
            (case parse_unsigned cs of
               None \<Rightarrow> Inl (invalid_literal s)
             | Some n \<Rightarrow> Inr (- int n))
          else
            (case parse_unsigned (if c = CHR ''+'' then cs else c # cs) of
               None \<Rightarrow> Inl (invalid_literal s)
             | Some n \<Rightarrow> Inr (int n)))"

text \<open>\<^verbatim>\<open>int(x)\<close> of a float: truncation towards zero.\<close>

definition py_trunc :: "real \<Rightarrow> int" where
  "py_trunc x = (if 0 \<le> x then \<lfloor>x\<rfloor> else \<lceil>x\<rceil>)"

text \<open>The idiom \<^verbatim>\<open>x if x else None\<close> on an optional string.\<close>

definition opt_str :: "string option \<Rightarrow> json" where
  "opt_str x = (case x of None \<Rightarrow> JNull | Some s \<Rightarrow> JStr s)"

section \<open>The Hetzner Cloud provider as the script sees it\<close>

text \<open>
  The objects of the \<^verbatim>\<open>hcloud\<close> SDK, reduced to the attributes the script reads.
  An attribute the script tests for presence (\<^verbatim>\<open>server.datacenter\<close>,
  \<^verbatim>\<open>server.public_net.ipv4\<close>, \<^verbatim>\<open>img.created_from\<close>, \<^verbatim>\<open>img.created\<close>) is an
  option; a timestamp is its \<^verbatim>\<open>isoformat()\<close> text; sizes are the numbers the SDK
  delivers, kept as \<open>json\<close> values.
\<close>

record datacenter =
  dc_name :: string
  dc_location_name :: string

record server =
  s_id :: int
  s_name :: string
  s_status :: string
  s_server_type_name :: string
  s_datacenter :: "datacenter option"
  s_public_ipv4 :: "string option"
  s_public_ipv6 :: "string option"
  s_created :: "string option"
  s_backup_window :: json
  s_locked :: bool

record created_from =
  cf_id :: int
  cf_name :: string

record image =
  i_id :: int
  i_description :: string
  i_status :: string
  i_created :: "string option"
  i_disk_size :: json
  i_image_size :: json
  i_created_from :: "created_from option"

record action =
  a_id :: int

record create_image_response =
  r_image :: image
  r_action :: action

text \<open>The constants \<^verbatim>\<open>Server.STATUS_RUNNING\<close> and \<^verbatim>\<open>Server.STATUS_OFF\<close> of the SDK.\<close>

definition STATUS_RUNNING :: string where
  "STATUS_RUNNING = ''running''"

definition STATUS_OFF :: string where
  "STATUS_OFF = ''off''"

text \<open>
  Every call that leaves the process is recorded, in order, in a trace: the SDK requests,
  the readings of \<^verbatim>\<open>time.time()\<close> and the calls of \<^verbatim>\<open>time.sleep\<close>. The provider
  is outside the program, so what a call answers is a parameter: a function of the trace
  so far and of the call's arguments. \<open>Inl e\<close> is the call raising \<open>e\<close>. Building a
  \<^verbatim>\<open>Client(token=...)\<close> sends nothing and is not recorded. A clock reading is a
  real number; the script subtracts two readings and compares the difference with the
  timeout.
\<close>

datatype call =
    Servers_get_by_id int
  | Server_power_on int
  | Server_shutdown int
  | Server_reboot int
  | Action_wait_until_finished int nat
  | Server_create_image int string string
  | Images_get_all string
  | Images_get_by_id int
  | Image_delete int
  | Time
  | Sleep nat

type_synonym trace = "call list"

record hcloud =
  servers_get_by_id :: "trace \<Rightarrow> int \<Rightarrow> exn + server option"
  server_power_on :: "trace \<Rightarrow> server \<Rightarrow> exn + action"
  server_shutdown :: "trace \<Rightarrow> server \<Rightarrow> exn + action"
  server_reboot :: "trace \<Rightarrow> server \<Rightarrow> exn + action"
  action_wait_until_finished :: "trace \<Rightarrow> action \<Rightarrow> nat \<Rightarrow> exn + unit"
  server_create_image :: "trace \<Rightarrow> server \<Rightarrow> string \<Rightarrow> string \<Rightarrow> exn + create_image_response"
  images_get_all :: "trace \<Rightarrow> string \<Rightarrow> exn + image list"
  images_get_by_id :: "trace \<Rightarrow> int \<Rightarrow> exn + image option"
  image_delete :: "trace \<Rightarrow> image \<Rightarrow> exn + unit"
  time_time :: "trace \<Rightarrow> real"

text \<open>
  The body of a \<^verbatim>\<open>try\<close> block yields a response or a raised exception, with the trace
  so far; \<^verbatim>\<open>except Exception as e: return json_response(False, error=str(e))\<close> turns
  the exception into a failure response.
\<close>

definition failure :: "string \<Rightarrow> string \<Rightarrow> json" where
  "failure ts msg = json_response ts False JNull (JStr msg)"

definition except_Exception :: "string \<Rightarrow> (exn + json) \<times> trace \<Rightarrow> json \<times> trace" where
  "except_Exception ts r =
     (case r of
        (Inl e, tr) \<Rightarrow> (failure ts (str_exn e), tr)
      | (Inr j, tr) \<Rightarrow> (j, tr))"

definition none_has_no_attribute :: "string \<Rightarrow> exn" where
  "none_has_no_attribute a =
     AttributeError ([CHR 0x27] @ ''NoneType'' @ [CHR 0x27] @ '' object has no attribute ''
                     @ [CHR 0x27] @ a @ [CHR 0x27])"

section \<open>Power operations of \<^verbatim>\<open>hetzner_cloud.py\<close>\<close>

definition start_server_try :: "hcloud \<Rightarrow> string \<Rightarrow> int \<Rightarrow> trace \<Rightarrow> (exn + json) \<times> trace" where
  "start_server_try env ts server_id tr =
     (let tr1 = tr @ [Servers_get_by_id server_id] in
      case servers_get_by_id env tr server_id of
        Inl e \<Rightarrow> (Inl e, tr1)
      | Inr None \<Rightarrow> (Inr (failure ts (''Server '' @ str_int server_id @ '' not found'')), tr1)
      | Inr (Some server) \<Rightarrow>
          if s_status server = STATUS_RUNNING then
            (Inr (json_response ts True
                    (JObj [(''server_id'', JInt (s_id server)),
                           (''name'', JStr (s_name server)),
                           (''status'', JStr ''running''),
                           (''message'', JStr ''Server is already running'')])
                    JNull), tr1)
          else
            (let tr2 = tr1 @ [Server_power_on (s_id server)] in
             case server_power_on env tr1 server of
               Inl e \<Rightarrow> (Inl e, tr2)
             | Inr action \<Rightarrow>
                 (let tr3 = tr2 @ [Action_wait_until_finished (a_id action) 60] in
                  case action_wait_until_finished env tr2 action 60 of
                    Inl e \<Rightarrow> (Inl e, tr3)
                  | Inr _ \<Rightarrow>
                      (let tr4 = tr3 @ [Servers_get_by_id server_id] in
                       case servers_get_by_id env tr3 server_id of
                         Inl e \<Rightarrow> (Inl e, tr4)
                       | Inr None \<Rightarrow> (Inl (none_has_no_attribute ''id''), tr4)
                       | Inr (Some server') \<Rightarrow>
                           (Inr (json_response ts True
                                   (JObj [(''server_id'', JInt (s_id server')),
                                          (''name'', JStr (s_name server')),
                                          (''status'', JStr (s_status server')),
                                          (''public_ipv4'', opt_str (s_public_ipv4 server')),
                                          (''message'', JStr ''Server started successfully'')])
                                   JNull), tr4)))))"

definition start_server :: "hcloud \<Rightarrow> string \<Rightarrow> int \<Rightarrow> trace \<Rightarrow> json \<times> trace" where
  "start_server env ts server_id tr = except_Exception ts (start_server_try env ts server_id tr)"

definition stop_server_try :: "hcloud \<Rightarrow> string \<Rightarrow> int \<Rightarrow> trace \<Rightarrow> (exn + json) \<times> trace" where
  "stop_server_try env ts server_id tr =
     (let tr1 = tr @ [Servers_get_by_id server_id] in
      case servers_get_by_id env tr server_id of
        Inl e \<Rightarrow> (Inl e, tr1)
      | Inr None \<Rightarrow> (Inr (failure ts (''Server '' @ str_int server_id @ '' not found'')), tr1)
      | Inr (Some server) \<Rightarrow>
          if s_status server = STATUS_OFF then
            (Inr (json_response ts True
                    (JObj [(''server_id'', JInt (s_id server)),
                           (''name'', JStr (s_name server)),
                           (''status'', JStr ''off''),
                           (''message'', JStr ''Server is already stopped'')])
                    JNull), tr1)
          else
            (let tr2 = tr1 @ [Server_shutdown (s_id server)] in
             case server_shutdown env tr1 server of
               Inl e \<Rightarrow> (Inl e, tr2)
             | Inr action \<Rightarrow>
                 (let tr3 = tr2 @ [Action_wait_until_finished (a_id action) 60] in
                  case action_wait_until_finished env tr2 action 60 of
                    Inl e \<Rightarrow> (Inl e, tr3)
                  | Inr _ \<Rightarrow>
                      (let tr4 = tr3 @ [Servers_get_by_id server_id] in
                       case servers_get_by_id env tr3 server_id of
                         Inl e \<Rightarrow> (Inl e, tr4)
                       | Inr None \<Rightarrow> (Inl (none_has_no_attribute ''id''), tr4)
                       | Inr (Some server') \<Rightarrow>
                           (Inr (json_response ts True
                                   (JObj [(''server_id'', JInt (s_id server')),
                                          (''name'', JStr (s_name server')),
                                          (''status'', JStr (s_status server')),
                                          (''message'', JStr ''Server stopped successfully'')])
                                   JNull), tr4)))))"

definition stop_server :: "hcloud \<Rightarrow> string \<Rightarrow> int \<Rightarrow> trace \<Rightarrow> json \<times> trace" where
  "stop_server env ts server_id tr = except_Exception ts (stop_server_try env ts server_id tr)"

definition reboot_server_try :: "hcloud \<Rightarrow> string \<Rightarrow> int \<Rightarrow> trace \<Rightarrow> (exn + json) \<times> trace" where
  "reboot_server_try env ts server_id tr =
     (let tr1 = tr @ [Servers_get_by_id server_id] in
      case servers_get_by_id env tr server_id of
        Inl e \<Rightarrow> (Inl e, tr1)
      | Inr None \<Rightarrow> (Inr (failure ts (''Server '' @ str_int server_id @ '' not found'')), tr1)
      | Inr (Some server) \<Rightarrow>
          (let tr2 = tr1 @ [Server_reboot (s_id server)] in
           case server_reboot env tr1 server of
             Inl e \<Rightarrow> (Inl e, tr2)
           | Inr action \<Rightarrow>
               (let tr3 = tr2 @ [Action_wait_until_finished (a_id action) 60] in
                case action_wait_until_finished env tr2 action 60 of
                  Inl e \<Rightarrow> (Inl e, tr3)
                | Inr _ \<Rightarrow>
                    (Inr (json_response ts True
                            (JObj [(''server_id'', JInt (s_id server)),
                                   (''name'', JStr (s_name server)),
                                   (''status'', JStr ''rebooting''),
                                   (''message'', JStr ''Server rebooted successfully'')])
                            JNull), tr3))))"

definition reboot_server :: "hcloud \<Rightarrow> string \<Rightarrow> int \<Rightarrow> trace \<Rightarrow> json \<times> trace" where
  "reboot_server env ts server_id tr = except_Exception ts (reboot_server_try env ts server_id tr)"

definition get_server_status_try :: "hcloud \<Rightarrow> string \<Rightarrow> int \<Rightarrow> trace \<Rightarrow> (exn + json) \<times> trace" where
  "get_server_status_try env ts server_id tr =
     (let tr1 = tr @ [Servers_get_by_id server_id] in
      case servers_get_by_id env tr server_id of
        Inl e \<Rightarrow> (Inl e, tr1)
      | Inr None \<Rightarrow> (Inr (failure ts (''Server '' @ str_int server_id @ '' not found'')), tr1)
      | Inr (Some server) \<Rightarrow>
          (Inr (json_response ts True
                  (JObj [(''server_id'', JInt (s_id server)),
                         (''name'', JStr (s_name server)),
                         (''status'', JStr (s_status server)),
                         (''server_type'', JStr (s_server_type_name server)),
                         (''datacenter'', opt_str (map_option dc_name (s_datacenter server))),
                         (''location'', opt_str (map_option dc_location_name (s_datacenter server))),
                         (''public_ipv4'', opt_str (s_public_ipv4 server)),
                         (''public_ipv6'', opt_str (s_public_ipv6 server)),
                         (''created'', opt_str (s_created server)),
                         (''backup_window'', s_backup_window server),
                         (''locked'', JBool (s_locked server))])
                  JNull), tr1))"

definition get_server_status :: "hcloud \<Rightarrow> string \<Rightarrow> int \<Rightarrow> trace \<Rightarrow> json \<times> trace" where
  "get_server_status env ts server_id tr =
     except_Exception ts (get_server_status_try env ts server_id tr)"

section \<open>Snapshot operations of \<^verbatim>\<open>hetzner_cloud.py\<close>\<close>

text \<open>
  \<^verbatim>\<open>check_snapshot_in_progress\<close> returns one of three dictionaries:
  \<^verbatim>\<open>{'in_progress': True, 'snapshot_id': .., 'description': .., 'status': ..}\<close>,
  \<^verbatim>\<open>{'in_progress': False}\<close> and \<^verbatim>\<open>{'in_progress': False, 'error': str(e)}\<close>.
  They are the three constructors of \<open>check_result\<close>.
\<close>

datatype check_result =
    In_progress int string string
  | Not_in_progress
  | Check_failed string

fun in_progress :: "check_result \<Rightarrow> bool" where
  "in_progress (In_progress snapshot_id description status) = True"
| "in_progress Not_in_progress = False"
| "in_progress (Check_failed error) = False"

text \<open>The test \<^verbatim>\<open>img.created_from and img.created_from.id == server_id\<close>.\<close>

definition created_from_is :: "image \<Rightarrow> int \<Rightarrow> bool" where
  "created_from_is img server_id =
     (case i_created_from img of None \<Rightarrow> False | Some cf \<Rightarrow> cf_id cf = server_id)"

text \<open>The \<^verbatim>\<open>for img in images\<close> loop of \<^verbatim>\<open>check_snapshot_in_progress\<close>.\<close>

fun scan_images :: "int \<Rightarrow> image list \<Rightarrow> check_result" where
  "scan_images server_id [] = Not_in_progress"
| "scan_images server_id (img # images) =
     (if created_from_is img server_id \<and> i_status img = ''creating''
      then In_progress (i_id img) (i_description img) (i_status img)
      else scan_images server_id images)"

definition check_snapshot_in_progress :: "hcloud \<Rightarrow> int \<Rightarrow> trace \<Rightarrow> check_result \<times> trace" where
  "check_snapshot_in_progress env server_id tr =
     (let tr1 = tr @ [Images_get_all ''snapshot''] in
      case images_get_all env tr ''snapshot'' of
        Inl e \<Rightarrow> (Check_failed (str_exn e), tr1)
      | Inr images \<Rightarrow> (scan_images server_id images, tr1))"

definition create_snapshot_try ::
  "hcloud \<Rightarrow> string \<Rightarrow> int \<Rightarrow> string \<Rightarrow> trace \<Rightarrow> (exn + json) \<times> trace" where
  "create_snapshot_try env ts server_id description tr =
     (let tr1 = tr @ [Servers_get_by_id server_id] in
      case servers_get_by_id env tr server_id of
        Inl e \<Rightarrow> (Inl e, tr1)
      | Inr None \<Rightarrow> (Inr (failure ts (''Server '' @ str_int server_id @ '' not found'')), tr1)
      | Inr (Some server) \<Rightarrow>
          (case check_snapshot_in_progress env server_id tr1 of
             (In_progress snapshot_id descr status, tr2) \<Rightarrow>
               (Inr (json_response ts True
                       (JObj [(''snapshot_id'', JInt snapshot_id),
                              (''description'', JStr descr),
                              (''status'', JStr status),
                              (''already_in_progress'', JBool True),
                              (''message'', JStr (''Snapshot already in progress: '' @ descr
                                                  @ ''. Will wait for it to complete.''))])
                       JNull), tr2)
           | (check_result, tr2) \<Rightarrow>
               (let tr3 = tr2 @ [Server_create_image (s_id server) description ''snapshot''] in
                case server_create_image env tr2 server description ''snapshot'' of
                  Inl e \<Rightarrow> (Inl e, tr3)
                | Inr response \<Rightarrow>
                    (let img = r_image response; action = r_action response in
                     (Inr (json_response ts True
                             (JObj [(''snapshot_id'', JInt (i_id img)),
                                    (''description'', JStr (i_description img)),
                                    (''status'', JStr (i_status img)),
                                    (''created'', opt_str (i_created img)),
                                    (''disk_size'', i_disk_size img),
                                    (''image_size'', i_image_size img),
                                    (''action_id'', JInt (a_id action)),
                                    (''already_in_progress'', JBool False),
                                    (''message'', JStr ''Snapshot creation initiated'')])
                             JNull), tr3)))))"

definition create_snapshot ::
  "hcloud \<Rightarrow> string \<Rightarrow> int \<Rightarrow> string \<Rightarrow> trace \<Rightarrow> json \<times> trace" where
  "create_snapshot env ts server_id description tr =
     except_Exception ts (create_snapshot_try env ts server_id description tr)"

text \<open>
  The polling loop of \<^verbatim>\<open>wait_for_snapshot\<close>. Nothing in the script bounds the number
  of rounds (the clock is the provider's and the operating system's), so the loop is a
  partial function: \<open>None\<close> is a run that never returns.
\<close>

definition timed_out :: "string \<Rightarrow> int \<Rightarrow> json" where
  "timed_out ts timeout =
     failure ts (''Snapshot creation timed out after '' @ str_int timeout @ '' seconds'')"

definition snapshot_completed :: "string \<Rightarrow> image \<Rightarrow> int \<Rightarrow> json" where
  "snapshot_completed ts img duration =
     json_response ts True
       (JObj [(''snapshot_id'', JInt (i_id img)),
              (''description'', JStr (i_description img)),
              (''status'', JStr ''available''),
              (''disk_size'', i_disk_size img),
              (''image_size'', i_image_size img),
              (''duration_seconds'', JInt duration),
              (''message'', JStr ''Snapshot completed successfully'')])
       JNull"

partial_function (option) wait_loop ::
  "hcloud \<Rightarrow> string \<Rightarrow> int \<Rightarrow> int \<Rightarrow> real \<Rightarrow> trace \<Rightarrow> ((exn + json) \<times> trace) option" where
  "wait_loop env ts snapshot_id timeout start_time tr =
     (if time_time env tr - start_time < real_of_int timeout then
        (case images_get_by_id env (tr @ [Time]) snapshot_id of
           Inl e \<Rightarrow> Some (Inl e, tr @ [Time, Images_get_by_id snapshot_id])
         | Inr None \<Rightarrow>
             Some (Inr (failure ts (''Snapshot '' @ str_int snapshot_id @ '' not found'')),
                   tr @ [Time, Images_get_by_id snapshot_id])
         | Inr (Some img) \<Rightarrow>
             if i_status img = ''available'' then
               Some (Inr (snapshot_completed ts img
                            (py_trunc (time_time env (tr @ [Time, Images_get_by_id snapshot_id])
                                       - start_time))),
                     tr @ [Time, Images_get_by_id snapshot_id, Time])
             else if i_status img = ''creating'' then
               wait_loop env ts snapshot_id timeout start_time
                 (tr @ [Time, Images_get_by_id snapshot_id, Sleep 10])
             else
               Some (Inr (failure ts (''Unexpected snapshot status: '' @ i_status img)),
                     tr @ [Time, Images_get_by_id snapshot_id]))
      else Some (Inr (timed_out ts timeout), tr @ [Time]))"

declare wait_loop.simps [code]

definition wait_for_snapshot ::
  "hcloud \<Rightarrow> string \<Rightarrow> int \<Rightarrow> int \<Rightarrow> trace \<Rightarrow> (json \<times> trace) option" where
  "wait_for_snapshot env ts snapshot_id timeout tr =
     map_option (except_Exception ts)
       (wait_loop env ts snapshot_id timeout (time_time env tr) (tr @ [Time]))"

text \<open>
  \<^verbatim>\<open>list_snapshots(api_token, server_name=None, server_id=None)\<close>. The name is
  \<^verbatim>\<open>None\<close> or a string; the id is \<^verbatim>\<open>None\<close>, an integer or a string (the script
  applies \<^verbatim>\<open>int\<close> to it). Both are tested for truthiness.
\<close>

datatype id_arg = Id_none | Id_int int | Id_str string

fun id_given :: "id_arg \<Rightarrow> bool" where
  "id_given Id_none = False"
| "id_given (Id_int n) = (n \<noteq> 0)"
| "id_given (Id_str s) = (s \<noteq> [])"

fun name_given :: "string option \<Rightarrow> bool" where
  "name_given None = False"
| "name_given (Some s) = (s \<noteq> [])"

definition snapshot_info :: "image \<Rightarrow> json" where
  "snapshot_info img =
     JObj [(''snapshot_id'', JInt (i_id img)),
           (''description'', JStr (i_description img)),
           (''status'', JStr (i_status img)),
           (''created'', opt_str (i_created img)),
           (''disk_size'', i_disk_size img),
           (''image_size'', i_image_size img),
           (''created_from_id'',
              (case i_created_from img of None \<Rightarrow> JNull | Some cf \<Rightarrow> JInt (cf_id cf)))]"

text \<open>
  The test \<^verbatim>\<open>server_id and img.created_from and img.created_from.id == int(server_id)\<close>;
  \<^verbatim>\<open>int\<close> is reached, and may raise, only when both operands before it are truthy.
\<close>

definition id_matches :: "id_arg \<Rightarrow> image \<Rightarrow> exn + bool" where
  "id_matches server_id img =
     (if \<not> id_given server_id then Inr False
      else case i_created_from img of
             None \<Rightarrow> Inr False
           | Some cf \<Rightarrow>
               (case server_id of
                  Id_none \<Rightarrow> Inr False
                | Id_int n \<Rightarrow> Inr (cf_id cf = n)
                | Id_str s \<Rightarrow>
                    (case py_int s of Inl e \<Rightarrow> Inl e | Inr n \<Rightarrow> Inr (cf_id cf = n))))"

text \<open>The test \<^verbatim>\<open>server_name and img.description.startswith(f"{server_name}-")\<close>.\<close>

definition prefix_matches :: "string option \<Rightarrow> image \<Rightarrow> bool" where
  "prefix_matches server_name img =
     (case server_name of
        None \<Rightarrow> False
      | Some s \<Rightarrow> s \<noteq> [] \<and> prefix (s @ ''-'') (i_description img))"

record buckets =
  snapshots :: "json list"
  snapshots_with_prefix :: "json list"
  snapshots_for_server :: "json list"
  all_snapshots_for_project :: "json list"

definition no_buckets :: buckets where
  "no_buckets = \<lparr>snapshots = [], snapshots_with_prefix = [], snapshots_for_server = [],
                 all_snapshots_for_project = []\<rparr>"

text \<open>The \<^verbatim>\<open>for img in images\<close> loop of \<^verbatim>\<open>list_snapshots\<close>.\<close>

fun collect :: "string option \<Rightarrow> id_arg \<Rightarrow> image list \<Rightarrow> buckets \<Rightarrow> exn + buckets" where
  "collect server_name server_id [] b = Inr b"
| "collect server_name server_id (img # images) b =
     (let b1 = b\<lparr>all_snapshots_for_project := all_snapshots_for_project b @ [snapshot_info img]\<rparr>
      in
        if name_given server_name \<or> id_given server_id then
          (case id_matches server_id img of
             Inl e \<Rightarrow> Inl e
           | Inr m \<Rightarrow>
               (let b2 = (if m then b1\<lparr>snapshots_for_server :=
                                         snapshots_for_server b1 @ [snapshot_info img]\<rparr>
                          else b1);
                    b3 = (if prefix_matches server_name img
                          then b2\<lparr>snapshots_with_prefix :=
                                     snapshots_with_prefix b2 @ [snapshot_info img]\<rparr>
                          else b2)
                in collect server_name server_id images b3))
        else collect server_name server_id images
               (b1\<lparr>snapshots := snapshots b1 @ [snapshot_info img]\<rparr>))"

text \<open>The choice after the loop, and the \<^verbatim>\<open>filter_used\<close> expression.\<close>

definition chosen :: "string option \<Rightarrow> id_arg \<Rightarrow> buckets \<Rightarrow> json list" where
  "chosen server_name server_id b =
     (if id_given server_id \<and> snapshots_for_server b \<noteq> [] then snapshots_for_server b
      else if name_given server_name \<and> snapshots_with_prefix b \<noteq> [] then snapshots_with_prefix b
      else if name_given server_name \<or> id_given server_id then all_snapshots_for_project b
      else snapshots b)"

definition filter_used :: "string option \<Rightarrow> id_arg \<Rightarrow> buckets \<Rightarrow> string" where
  "filter_used server_name server_id b =
     (if id_given server_id \<and> snapshots_for_server b \<noteq> [] then ''server_id''
      else if name_given server_name \<and> snapshots_with_prefix b \<noteq> [] then ''hostname_prefix''
      else ''all_project'')"

definition list_snapshots_try ::
  "hcloud \<Rightarrow> string \<Rightarrow> string option \<Rightarrow> id_arg \<Rightarrow> trace \<Rightarrow> (exn + json) \<times> trace" where
  "list_snapshots_try env ts server_name server_id tr =
     (let tr1 = tr @ [Images_get_all ''snapshot''] in
      case images_get_all env tr ''snapshot'' of
        Inl e \<Rightarrow> (Inl e, tr1)
      | Inr images \<Rightarrow>
          (case collect server_name server_id images no_buckets of
             Inl e \<Rightarrow> (Inl e, tr1)
           | Inr b \<Rightarrow>
               (Inr (json_response ts True
                       (JObj [(''snapshots'', JList (chosen server_name server_id b)),
                              (''count'', JInt (int (length (chosen server_name server_id b)))),
                              (''filter_used'', JStr (filter_used server_name server_id b))])
                       JNull), tr1)))"

definition list_snapshots ::
  "hcloud \<Rightarrow> string \<Rightarrow> string option \<Rightarrow> id_arg \<Rightarrow> trace \<Rightarrow> json \<times> trace" where
  "list_snapshots env ts server_name server_id tr =
     except_Exception ts (list_snapshots_try env ts server_name server_id tr)"

definition delete_snapshot_try :: "hcloud \<Rightarrow> string \<Rightarrow> int \<Rightarrow> trace \<Rightarrow> (exn + json) \<times> trace" where
  "delete_snapshot_try env ts snapshot_id tr =
     (let tr1 = tr @ [Images_get_by_id snapshot_id] in
      case images_get_by_id env tr snapshot_id of
        Inl e \<Rightarrow> (Inl e, tr1)
      | Inr None \<Rightarrow> (Inr (failure ts (''Snapshot '' @ str_int snapshot_id @ '' not found'')), tr1)
      | Inr (Some img) \<Rightarrow>
          (let tr2 = tr1 @ [Image_delete (i_id img)] in
           case image_delete env tr1 img of
             Inl e \<Rightarrow> (Inl e, tr2)
           | Inr _ \<Rightarrow>
               (Inr (json_response ts True
                       (JObj [(''snapshot_id'', JInt snapshot_id),
                              (''message'', JStr ''Snapshot deleted successfully'')])
                       JNull), tr2)))"

definition delete_snapshot :: "hcloud \<Rightarrow> string \<Rightarrow> int \<Rightarrow> trace \<Rightarrow> json \<times> trace" where
  "delete_snapshot env ts snapshot_id tr =
     except_Exception ts (delete_snapshot_try env ts snapshot_id tr)"

section \<open>The command dispatcher of \<^verbatim>\<open>hetzner_cloud.py\<close>\<close>

text \<open>
  A run of the script ends in one of two ways: it exits with a status after printing its
  documents, or an exception that nothing catches ends it with a traceback. \<open>main\<close>
  takes \<^verbatim>\<open>sys.argv\<close>; a run that returns from \<open>main\<close> exits with status 0.
\<close>

datatype process =
    Exited "json list" int
  | Uncaught exn

definition usage :: "string \<Rightarrow> string \<Rightarrow> process" where
  "usage ts msg = Exited [failure ts msg] 1"

definition printed :: "json \<times> trace \<Rightarrow> process" where
  "printed r = Exited [fst r] 0"

definition main :: "hcloud \<Rightarrow> string \<Rightarrow> string list \<Rightarrow> process option" where
  "main env ts argv =
     (if length argv < 3 then
        Some (usage ts ''Usage: hetzner_cloud.py <command> <api_token> [args...]'')
      else
        (let command = argv ! 1 in
         if command = ''start'' then
           (if length argv < 4 then
              Some (usage ts ''Usage: hetzner_cloud.py start <api_token> <server_id>'')
            else case py_int (argv ! 3) of
                   Inl e \<Rightarrow> Some (Uncaught e)
                 | Inr n \<Rightarrow> Some (printed (start_server env ts n [])))
         else if command = ''stop'' then
           (if length argv < 4 then
              Some (usage ts ''Usage: hetzner_cloud.py stop <api_token> <server_id>'')
            else case py_int (argv ! 3) of
                   Inl e \<Rightarrow> Some (Uncaught e)
                 | Inr n \<Rightarrow> Some (printed (stop_server env ts n [])))
         else if command = ''reboot'' then
           (if length argv < 4 then
              Some (usage ts ''Usage: hetzner_cloud.py reboot <api_token> <server_id>'')
            else case py_int (argv ! 3) of
                   Inl e \<Rightarrow> Some (Uncaught e)
                 | Inr n \<Rightarrow> Some (printed (reboot_server env ts n [])))
         else if command = ''status'' then
           (if length argv < 4 then
              Some (usage ts ''Usage: hetzner_cloud.py status <api_token> <server_id>'')
            else case py_int (argv ! 3) of
                   Inl e \<Rightarrow> Some (Uncaught e)
                 | Inr n \<Rightarrow> Some (printed (get_server_status env ts n [])))
         else if command = ''create_snapshot'' then
           (if length argv < 5 then
              Some (usage ts
                ''Usage: hetzner_cloud.py create_snapshot <api_token> <server_id> <description>'')
            else case py_int (argv ! 3) of
                   Inl e \<Rightarrow> Some (Uncaught e)
                 | Inr n \<Rightarrow> Some (printed (create_snapshot env ts n (argv ! 4) [])))
         else if command = ''wait_snapshot'' then
           (if length argv < 4 then
              Some (usage ts
                ''Usage: hetzner_cloud.py wait_snapshot <api_token> <snapshot_id> [timeout]'')
            else case (if length argv > 4 then py_int (argv ! 4) else Inr 900) of
                   Inl e \<Rightarrow> Some (Uncaught e)
                 | Inr timeout \<Rightarrow>
                     (case py_int (argv ! 3) of
                        Inl e \<Rightarrow> Some (Uncaught e)
                      | Inr n \<Rightarrow> map_option printed (wait_for_snapshot env ts n timeout [])))
         else if command = ''list_snapshots'' then
           Some (printed (list_snapshots env ts
                            (if length argv > 3 then Some (argv ! 3) else None) Id_none []))
         else if command = ''delete_snapshot'' then
           (if length argv < 4 then
              Some (usage ts ''Usage: hetzner_cloud.py delete_snapshot <api_token> <snapshot_id>'')
            else case py_int (argv ! 3) of
                   Inl e \<Rightarrow> Some (Uncaught e)
                 | Inr n \<Rightarrow> Some (printed (delete_snapshot env ts n [])))
         else Some (usage ts (''Unknown command: '' @ command))))"

section \<open>The Proxmox provider and the operations of \<^verbatim>\<open>proxmox_api.py\<close>\<close>

text \<open>
  The REST resources the script reaches through \<^verbatim>\<open>proxmoxer\<close>, named by resource
  kind (\<^verbatim>\<open>qemu\<close> or \<^verbatim>\<open>lxc\<close>), node and id, and the construction of the
  \<^verbatim>\<open>ProxmoxAPI\<close> object, whose result the script tests with \<^verbatim>\<open>if not proxmox\<close>:
  the answer is the truthiness of the object. A resource answers with a dictionary or a
  list of dictionaries.
\<close>

datatype pve_call =
    ProxmoxAPI string string string string string bool
  | Status_current_get string string int
  | Status_start_post string string int
  | Snapshot_get string string int
  | Pve_sleep nat

type_synonym pve_trace = "pve_call list"

record proxmox =
  proxmox_api :: "pve_trace \<Rightarrow> string \<Rightarrow> string \<Rightarrow> string \<Rightarrow> string \<Rightarrow> string \<Rightarrow> bool \<Rightarrow> exn + bool"
  status_current_get :: "pve_trace \<Rightarrow> string \<Rightarrow> string \<Rightarrow> int \<Rightarrow> exn + pydict"
  status_start_post :: "pve_trace \<Rightarrow> string \<Rightarrow> string \<Rightarrow> int \<Rightarrow> exn + unit"
  snapshot_get :: "pve_trace \<Rightarrow> string \<Rightarrow> string \<Rightarrow> int \<Rightarrow> exn + pydict list"

definition pve_failure :: "string \<Rightarrow> string \<Rightarrow> json" where
  "pve_failure ts msg = pve_json_response ts False JNull (JStr msg) JNull"

definition pve_except_Exception ::
  "string \<Rightarrow> (exn + json) \<times> pve_trace \<Rightarrow> json \<times> pve_trace" where
  "pve_except_Exception ts r =
     (case r of
        (Inl e, tr) \<Rightarrow> (pve_failure ts (str_exn e), tr)
      | (Inr j, tr) \<Rightarrow> (j, tr))"

text \<open>
  \<^verbatim>\<open>token.split('=')[0] if '=' in token else 'api'\<close> and
  \<^verbatim>\<open>token.split('=')[1] if '=' in token else token\<close>.
\<close>

definition token_name :: "string \<Rightarrow> string" where
  "token_name token =
     (if CHR ''='' \<in> set token then takeWhile (\<lambda>c. c \<noteq> CHR ''='') token else ''api'')"

definition token_value :: "string \<Rightarrow> string" where
  "token_value token =
     (if CHR ''='' \<in> set token
      then takeWhile (\<lambda>c. c \<noteq> CHR ''='') (tl (dropWhile (\<lambda>c. c \<noteq> CHR ''='') token))
      else token)"

definition connect_call :: "string \<Rightarrow> string \<Rightarrow> bool \<Rightarrow> pve_call" where
  "connect_call username token verify_ssl =
     ProxmoxAPI ''localhost'' username (token_name token) (token_value token) ''https'' verify_ssl"

definition connect_proxmox ::
  "proxmox \<Rightarrow> pve_trace \<Rightarrow> string \<Rightarrow> string \<Rightarrow> string \<Rightarrow> bool \<Rightarrow> exn + bool" where
  "connect_proxmox env tr api_url username token verify_ssl =
     proxmox_api env tr ''localhost'' username (token_name token) (token_value token)
       ''https'' verify_ssl"

text \<open>\<^verbatim>\<open>d[k]\<close>, which raises \<^verbatim>\<open>KeyError\<close>, and \<^verbatim>\<open>d.get(k, default)\<close>.\<close>

definition getitem :: "pydict \<Rightarrow> string \<Rightarrow> exn + json" where
  "getitem d k =
     (case map_of d k of
        None \<Rightarrow> Inl (KeyError ([CHR 0x27] @ k @ [CHR 0x27]))
      | Some v \<Rightarrow> Inr v)"

definition dget :: "pydict \<Rightarrow> string \<Rightarrow> json \<Rightarrow> json" where
  "dget d k dflt = (case map_of d k of None \<Rightarrow> dflt | Some v \<Rightarrow> v)"

text \<open>\<^verbatim>\<open>str.upper()\<close> on ASCII text.\<close>

definition py_upper :: "string \<Rightarrow> string" where
  "py_upper s =
     map (\<lambda>c. if 97 \<le> (of_char c :: nat) \<and> (of_char c :: nat) \<le> 122
              then char_of ((of_char c :: nat) - 32) else c) s"

text \<open>
  \<^verbatim>\<open>start_vm\<close>. The branches for \<^verbatim>\<open>qemu\<close> and \<^verbatim>\<open>lxc\<close> are the same text
  on two resource paths; \<open>start_kind\<close> is that text with the path as a parameter.
\<close>

definition start_kind ::
  "proxmox \<Rightarrow> string \<Rightarrow> string \<Rightarrow> string \<Rightarrow> int \<Rightarrow> string \<Rightarrow> pve_trace
     \<Rightarrow> (exn + json) \<times> pve_trace" where
  "start_kind env ts kind node vmid vm_type tr1 =
     (let tr2 = tr1 @ [Status_current_get kind node vmid] in
      case status_current_get env tr1 kind node vmid of
        Inl e \<Rightarrow> (Inl e, tr2)
      | Inr current \<Rightarrow>
          (case getitem current ''status'' of
             Inl e \<Rightarrow> (Inl e, tr2)
           | Inr st \<Rightarrow>
               if st = JStr ''running'' then
                 (Inr (pve_json_response ts True (JObj [(''status'', JStr ''running'')]) JNull
                         (JStr (py_upper vm_type @ '' is already running''))), tr2)
               else
                 (let tr3 = tr2 @ [Status_start_post kind node vmid] in
                  case status_start_post env tr2 kind node vmid of
                    Inl e \<Rightarrow> (Inl e, tr3)
                  | Inr _ \<Rightarrow>
                      (let tr4 = tr3 @ [Pve_sleep 2];
                           tr5 = tr4 @ [Status_current_get kind node vmid] in
                       case status_current_get env tr4 kind node vmid of
                         Inl e \<Rightarrow> (Inl e, tr5)
                       | Inr new_status \<Rightarrow>
                           (case getitem new_status ''status'' of
                              Inl e \<Rightarrow> (Inl e, tr5)
                            | Inr st' \<Rightarrow>
                                (Inr (pve_json_response ts True
                                        (JObj [(''vmid'', JInt vmid),
                                               (''node'', JStr node),
                                               (''type'', JStr vm_type),
                                               (''status'', st')])
                                        JNull
                                        (JStr (py_upper vm_type @ '' start initiated''))),
                                 tr5))))))"

definition start_vm_try ::
  "proxmox \<Rightarrow> string \<Rightarrow> string \<Rightarrow> string \<Rightarrow> string \<Rightarrow> string \<Rightarrow> int \<Rightarrow> string \<Rightarrow> bool
     \<Rightarrow> pve_trace \<Rightarrow> (exn + json) \<times> pve_trace" where
  "start_vm_try env ts api_url username token node vmid vm_type verify_ssl tr =
     (let tr1 = tr @ [connect_call username token verify_ssl] in
      case connect_proxmox env tr api_url username token verify_ssl of
        Inl e \<Rightarrow> (Inl e, tr1)
      | Inr False \<Rightarrow> (Inr (pve_failure ts ''Failed to connect to Proxmox API''), tr1)
      | Inr True \<Rightarrow>
          if vm_type = ''qemu'' then start_kind env ts ''qemu'' node vmid vm_type tr1
          else if vm_type = ''lxc'' then start_kind env ts ''lxc'' node vmid vm_type tr1
          else (Inr (pve_failure ts (''Invalid VM type: '' @ vm_type)), tr1))"

definition start_vm ::
  "proxmox \<Rightarrow> string \<Rightarrow> string \<Rightarrow> string \<Rightarrow> string \<Rightarrow> string \<Rightarrow> int \<Rightarrow> string \<Rightarrow> bool
     \<Rightarrow> pve_trace \<Rightarrow> json \<times> pve_trace" where
  "start_vm env ts api_url username token node vmid vm_type verify_ssl tr =
     pve_except_Exception ts
       (start_vm_try env ts api_url username token node vmid vm_type verify_ssl tr)"

text \<open>
  \<^verbatim>\<open>list_snapshots\<close> of \<^verbatim>\<open>proxmox_api.py\<close>: the test
  \<^verbatim>\<open>snap.get('name') not in ['current', None]\<close>, the entry appended for a snapshot
  that passes it, and the loop over the provider's answer.
\<close>

definition named :: "pydict \<Rightarrow> bool" where
  "named snap = (dget snap ''name'' JNull \<notin> set [JStr ''current'', JNull])"

definition snapshot_entry :: "pydict \<Rightarrow> json" where
  "snapshot_entry snap =
     JObj [(''name'', dget snap ''name'' JNull),
           (''description'', dget snap ''description'' (JStr '''')),
           (''snaptime'', dget snap ''snaptime'' (JInt 0)),
           (''vmstate'', dget snap ''vmstate'' (JInt 0))]"

fun snapshot_list :: "json list \<Rightarrow> pydict list \<Rightarrow> json list" where
  "snapshot_list acc [] = acc"
| "snapshot_list acc (snap # snaps) =
     snapshot_list (if named snap then acc @ [snapshot_entry snap] else acc) snaps"

definition pve_list_snapshots_try ::
  "proxmox \<Rightarrow> string \<Rightarrow> string \<Rightarrow> string \<Rightarrow> string \<Rightarrow> string \<Rightarrow> int \<Rightarrow> string \<Rightarrow> bool
     \<Rightarrow> pve_trace \<Rightarrow> (exn + json) \<times> pve_trace" where
  "pve_list_snapshots_try env ts api_url username token node vmid vm_type verify_ssl tr =
     (let tr1 = tr @ [connect_call username token verify_ssl] in
      case connect_proxmox env tr api_url username token verify_ssl of
        Inl e \<Rightarrow> (Inl e, tr1)
      | Inr False \<Rightarrow> (Inr (pve_failure ts ''Failed to connect to Proxmox API''), tr1)
      | Inr True \<Rightarrow>
          (case (if vm_type = ''qemu'' then
                   Some (snapshot_get env tr1 ''qemu'' node vmid,
                         tr1 @ [Snapshot_get ''qemu'' node vmid])
                 else if vm_type = ''lxc'' then
                   Some (snapshot_get env tr1 ''lxc'' node vmid,
                         tr1 @ [Snapshot_get ''lxc'' node vmid])
                 else None) of
             None \<Rightarrow> (Inr (pve_failure ts (''Invalid VM type: '' @ vm_type)), tr1)
           | Some (Inl e, tr2) \<Rightarrow> (Inl e, tr2)
           | Some (Inr snaps, tr2) \<Rightarrow>
               (Inr (pve_json_response ts True
                       (JObj [(''vmid'', JInt vmid),
                              (''node'', JStr node),
                              (''type'', JStr vm_type),
                              (''snapshots'', JList (snapshot_list [] snaps)),
                              (''count'', JInt (int (length (snapshot_list [] snaps))))])
                       JNull JNull), tr2)))"

definition pve_list_snapshots ::
  "proxmox \<Rightarrow> string \<Rightarrow> string \<Rightarrow> string \<Rightarrow> string \<Rightarrow> string \<Rightarrow> int \<Rightarrow> string \<Rightarrow> bool
     \<Rightarrow> pve_trace \<Rightarrow> json \<times> pve_trace" where
  "pve_list_snapshots env ts api_url username token node vmid vm_type verify_ssl tr =
     pve_except_Exception ts
       (pve_list_snapshots_try env ts api_url username token node vmid vm_type verify_ssl tr)"

section \<open>Observations on a run\<close>

text \<open>The number of snapshot-creation requests in a trace.\<close>

fun is_create_call :: "call \<Rightarrow> bool" where
  "is_create_call (Server_create_image server_id description kind) = True"
| "is_create_call c = False"

definition create_calls :: "trace \<Rightarrow> nat" where
  "create_calls tr = length (filter is_create_call tr)"

text \<open>
  The trace at the head of the polling loop of \<^verbatim>\<open>wait_for_snapshot\<close>, called with
  trace \<open>tr\<close>, after \<open>k\<close> rounds that each read the clock, polled and slept; and the
  statement that the first \<open>k\<close> rounds went that way: each began before the deadline
  and polled the status \<^verbatim>\<open>creating\<close>.
\<close>

fun after_rounds :: "trace \<Rightarrow> int \<Rightarrow> nat \<Rightarrow> trace" where
  "after_rounds tr snapshot_id 0 = tr @ [Time]"
| "after_rounds tr snapshot_id (Suc k) =
     after_rounds tr snapshot_id k @ [Time, Images_get_by_id snapshot_id, Sleep 10]"

definition before_deadline :: "hcloud \<Rightarrow> trace \<Rightarrow> int \<Rightarrow> int \<Rightarrow> nat \<Rightarrow> bool" where
  "before_deadline env tr snapshot_id timeout k =
     (time_time env (after_rounds tr snapshot_id k) - time_time env tr < real_of_int timeout)"

definition polled_status :: "hcloud \<Rightarrow> trace \<Rightarrow> int \<Rightarrow> nat \<Rightarrow> string option" where
  "polled_status env tr snapshot_id k =
     (case images_get_by_id env (after_rounds tr snapshot_id k @ [Time]) snapshot_id of
        Inr (Some img) \<Rightarrow> Some (i_status img)
      | _ \<Rightarrow> None)"

fun creating_rounds :: "hcloud \<Rightarrow> trace \<Rightarrow> int \<Rightarrow> int \<Rightarrow> nat \<Rightarrow> bool" where
  "creating_rounds env tr snapshot_id timeout 0 = True"
| "creating_rounds env tr snapshot_id timeout (Suc k) =
     (creating_rounds env tr snapshot_id timeout k
      \<and> before_deadline env tr snapshot_id timeout k
      \<and> polled_status env tr snapshot_id k = Some ''creating'')"

text \<open>A field of the \<^verbatim>\<open>data\<close> dictionary of a response.\<close>

definition data_field :: "string \<Rightarrow> json \<Rightarrow> json option" where
  "data_field k r = (case jget ''data'' r of None \<Rightarrow> None | Some d \<Rightarrow> jget k d)"

text \<open>The test \<^verbatim>\<open>created_from\<close> and \<^verbatim>\<open>status == "creating"\<close> of the in-progress check.\<close>

definition creating_for :: "int \<Rightarrow> image \<Rightarrow> bool" where
  "creating_for server_id img = (created_from_is img server_id \<and> i_status img = ''creating'')"

section \<open>Example providers\<close>

text \<open>
  Concrete providers on which the theorems below are exercised. \<open>offline\<close> fails every
  request; its clock advances by ten seconds with every \<^verbatim>\<open>time.sleep(10)\<close> recorded.
  The other examples override single answers.
\<close>

definition example_server :: "string \<Rightarrow> server" where
  "example_server status =
     \<lparr>s_id = 42, s_name = ''web'', s_status = status, s_server_type_name = ''cx22'',
      s_datacenter = None, s_public_ipv4 = Some ''203.0.113.7'', s_public_ipv6 = None,
      s_created = None, s_backup_window = JNull, s_locked = False\<rparr>"

definition example_image :: "int \<Rightarrow> string \<Rightarrow> string \<Rightarrow> int option \<Rightarrow> image" where
  "example_image n description status source =
     \<lparr>i_id = n, i_description = description, i_status = status, i_created = None,
      i_disk_size = JInt 40, i_image_size = JNull,
      i_created_from = map_option (\<lambda>k. \<lparr>cf_id = k, cf_name = ''web''\<rparr>) source\<rparr>"

definition offline :: hcloud where
  "offline =
     \<lparr>servers_get_by_id = (\<lambda>tr n. Inl (ProviderError ''offline'')),
      server_power_on = (\<lambda>tr s. Inl (ProviderError ''offline'')),
      server_shutdown = (\<lambda>tr s. Inl (ProviderError ''offline'')),
      server_reboot = (\<lambda>tr s. Inl (ProviderError ''offline'')),
      action_wait_until_finished = (\<lambda>tr a n. Inl (ProviderError ''offline'')),
      server_create_image = (\<lambda>tr s d k. Inl (ProviderError ''offline'')),
      images_get_all = (\<lambda>tr k. Inl (ProviderError ''offline'')),
      images_get_by_id = (\<lambda>tr n. Inl (ProviderError ''offline'')),
      image_delete = (\<lambda>tr i. Inl (ProviderError ''offline'')),
      time_time = (\<lambda>tr. 10 * real (length (filter (\<lambda>c. c = Sleep 10) tr)))\<rparr>"

definition with_server :: "string \<Rightarrow> image list \<Rightarrow> hcloud" where
  "with_server status images =
     offline\<lparr>servers_get_by_id := (\<lambda>tr n. Inr (Some (example_server status))),
             images_get_all := (\<lambda>tr k. Inr images),
             server_create_image :=
               (\<lambda>tr s d k. Inr \<lparr>r_image = example_image 7 d ''creating'' (Some (s_id s)),
                                 r_action = \<lparr>a_id = 1\<rparr>\<rparr>)\<rparr>"

definition polled :: "(nat \<Rightarrow> string) \<Rightarrow> hcloud" where
  "polled status_at =
     offline\<lparr>images_get_by_id :=
               (\<lambda>tr n. Inr (Some (example_image n ''web-1'' 
                                      (status_at (length (filter (\<lambda>c. c = Sleep 10) tr)))
                                      (Some 42))))\<rparr>"

definition pve_offline :: proxmox where
  "pve_offline =
     \<lparr>proxmox_api = (\<lambda>tr h u n v b s. Inr True),
      status_current_get = (\<lambda>tr k n i. Inl (ProviderError ''offline'')),
      status_start_post = (\<lambda>tr k n i. Inl (ProviderError ''offline'')),
      snapshot_get = (\<lambda>tr k n i. Inl (ProviderError ''offline''))\<rparr>"

section \<open>Properties of the response shape\<close>

text \<open>
  Claim C8. In both scripts the response omits the key \<^verbatim>\<open>data\<close> whenever the data
  argument is falsy (\<^verbatim>\<open>None\<close> or an empty dictionary) and omits the key \<^verbatim>\<open>error\<close>
  whenever the error argument is falsy (\<^verbatim>\<open>None\<close> or an empty string); a success
  response built with an empty data dictionary has the keys \<^verbatim>\<open>success\<close> and
  \<^verbatim>\<open>timestamp\<close> only.
\<close>

theorem json_response_omits_falsy:
  "(\<not> truthy data \<longrightarrow> ''data'' \<notin> set (keys (json_response ts success data error))
                    \<and> ''data'' \<notin> set (keys (pve_json_response ts success data error message)))
   \<and> (\<not> truthy error \<longrightarrow> ''error'' \<notin> set (keys (json_response ts success data error))
                    \<and> ''error'' \<notin> set (keys (pve_json_response ts success data error message)))
   \<and> \<not> truthy JNull \<and> \<not> truthy (JObj []) \<and> \<not> truthy (JStr [])
   \<and> json_response ts True (JObj []) JNull
       = JObj [(''success'', JBool True), (''timestamp'', JStr ts)]
   \<and> pve_json_response ts True (JObj []) JNull JNull
       = JObj [(''success'', JBool True), (''timestamp'', JStr ts)]"
  by (auto simp add: json_response_def pve_json_response_def)

theorem json_response_omits_falsy_witness:
  "\<not> truthy (JObj []) \<and> \<not> truthy (JStr [])
   \<and> keys (json_response ''2024-01-01T00:00:00'' True (JObj []) (JStr []))
       = [''success'', ''timestamp'']
   \<and> keys (pve_json_response ''2024-01-01T00:00:00'' True (JObj []) (JStr []) (JStr ''ok''))
       = [''success'', ''timestamp'', ''message'']"
  using json_response_omits_falsy [of "JObj []" "''2024-01-01T00:00:00''" True "JStr []" "JStr ''ok''"]
  by (simp add: json_response_def pve_json_response_def)

section \<open>Evaluations of the builtins\<close>

lemma str_int_25: "str_int 25 = ''25''"
  by (simp add: str_int_def str_nat.simps digit_char_def)

lemma py_int_42: "py_int ''42'' = Inr 42"
  by code_simp

lemma upper_kinds: "py_upper ''qemu'' = ''QEMU''" "py_upper ''lxc'' = ''LXC''"
  by code_simp+

section \<open>Snapshot coordination: \<^verbatim>\<open>create_snapshot\<close>\<close>

lemma scan_images_find:
  "scan_images server_id images =
     (case find (creating_for server_id) images of
        None \<Rightarrow> Not_in_progress
      | Some img \<Rightarrow> In_progress (i_id img) (i_description img) (i_status img))"
  by (induction images) (auto simp: creating_for_def)

lemma find_creating_status:
  "find (creating_for server_id) images = Some img \<Longrightarrow> i_status img = ''creating''"
  by (auto simp: find_Some_iff creating_for_def)

text \<open>
  Claim C1. When the provider's listing shows a snapshot in state \<^verbatim>\<open>creating\<close> that
  was created from the target server, \<^verbatim>\<open>create_snapshot\<close> returns a success response
  carrying the identifier and description of that snapshot (the first such in the listing)
  with \<^verbatim>\<open>already_in_progress\<close> true, and sends the provider the server lookup and the
  listing only: no create request. So a request never adds a second \<^verbatim>\<open>creating\<close>
  snapshot to one it can see. The hypotheses say that the lookup finds the server and the
  listing answers.
\<close>

theorem create_snapshot_attaches:
  assumes "servers_get_by_id env tr server_id = Inr (Some server)"
      and "images_get_all env (tr @ [Servers_get_by_id server_id]) ''snapshot'' = Inr images"
      and "find (creating_for server_id) images = Some img"
  shows "create_snapshot env ts server_id description tr =
           (json_response ts True
              (JObj [(''snapshot_id'', JInt (i_id img)),
                     (''description'', JStr (i_description img)),
                     (''status'', JStr ''creating''),
                     (''already_in_progress'', JBool True),
                     (''message'', JStr (''Snapshot already in progress: '' @ i_description img
                                         @ ''. Will wait for it to complete.''))])
              JNull,
            tr @ [Servers_get_by_id server_id, Images_get_all ''snapshot''])
         \<and> create_calls (snd (create_snapshot env ts server_id description tr)) = create_calls tr"
  using assms find_creating_status[OF assms(3)]
  by (simp add: create_snapshot_def create_snapshot_try_def check_snapshot_in_progress_def
        scan_images_find except_Exception_def create_calls_def)

theorem create_snapshot_attaches_witness:
  "create_snapshot
     (with_server ''running''
        [example_image 5 ''web-1'' ''available'' (Some 42),
         example_image 6 ''web-2'' ''creating'' (Some 42)])
     ''t'' 42 ''web-3'' []
   = (json_response ''t'' True
        (JObj [(''snapshot_id'', JInt 6),
               (''description'', JStr ''web-2''),
               (''status'', JStr ''creating''),
               (''already_in_progress'', JBool True),
               (''message'', JStr ''Snapshot already in progress: web-2. Will wait for it to complete.'')])
        JNull,
      [Servers_get_by_id 42, Images_get_all ''snapshot''])"
  using create_snapshot_attaches
    [of "with_server ''running''
          [example_image 5 ''web-1'' ''available'' (Some 42),
           example_image 6 ''web-2'' ''creating'' (Some 42)]"
        "[]" 42 "example_server ''running''"
        "[example_image 5 ''web-1'' ''available'' (Some 42),
          example_image 6 ''web-2'' ''creating'' (Some 42)]"
        "example_image 6 ''web-2'' ''creating'' (Some 42)" "''t''" "''web-3''"]
  by (simp add: with_server_def offline_def creating_for_def created_from_is_def
        example_image_def)

text \<open>
  Claim C2. When the listing shows no snapshot in state \<^verbatim>\<open>creating\<close> for the
  server, \<^verbatim>\<open>create_snapshot\<close> sends exactly one create request, and when the provider
  accepts it the response is a success carrying the new snapshot's identifier with
  \<^verbatim>\<open>already_in_progress\<close> false.
\<close>

theorem create_snapshot_creates_once:
  assumes "servers_get_by_id env tr server_id = Inr (Some server)"
      and "images_get_all env (tr @ [Servers_get_by_id server_id]) ''snapshot'' = Inr images"
      and "find (creating_for server_id) images = None"
  shows "snd (create_snapshot env ts server_id description tr) =
           tr @ [Servers_get_by_id server_id, Images_get_all ''snapshot'',
                 Server_create_image (s_id server) description ''snapshot'']
         \<and> create_calls (snd (create_snapshot env ts server_id description tr)) = create_calls tr + 1
         \<and> (\<forall>response.
               server_create_image env (tr @ [Servers_get_by_id server_id, Images_get_all ''snapshot''])
                  server description ''snapshot'' = Inr response \<longrightarrow>
               fst (create_snapshot env ts server_id description tr) =
                 json_response ts True
                   (JObj [(''snapshot_id'', JInt (i_id (r_image response))),
                          (''description'', JStr (i_description (r_image response))),
                          (''status'', JStr (i_status (r_image response))),
                          (''created'', opt_str (i_created (r_image response))),
                          (''disk_size'', i_disk_size (r_image response)),
                          (''image_size'', i_image_size (r_image response)),
                          (''action_id'', JInt (a_id (r_action response))),
                          (''already_in_progress'', JBool False),
                          (''message'', JStr ''Snapshot creation initiated'')])
                   JNull)"
  using assms
  by (auto simp add: create_snapshot_def create_snapshot_try_def check_snapshot_in_progress_def
        scan_images_find except_Exception_def create_calls_def Let_def split: sum.splits)

theorem create_snapshot_creates_once_witness:
  "create_snapshot
     (with_server ''running'' [example_image 5 ''web-1'' ''available'' (Some 42)])
     ''t'' 42 ''web-3'' []
   = (json_response ''t'' True
        (JObj [(''snapshot_id'', JInt 7),
               (''description'', JStr ''web-3''),
               (''status'', JStr ''creating''),
               (''created'', JNull),
               (''disk_size'', JInt 40),
               (''image_size'', JNull),
               (''action_id'', JInt 1),
               (''already_in_progress'', JBool False),
               (''message'', JStr ''Snapshot creation initiated'')])
        JNull,
      [Servers_get_by_id 42, Images_get_all ''snapshot'',
       Server_create_image 42 ''web-3'' ''snapshot''])
   \<and> create_calls (snd (create_snapshot
          (with_server ''running'' [example_image 5 ''web-1'' ''available'' (Some 42)])
          ''t'' 42 ''web-3'' [])) = 1"
  using create_snapshot_creates_once
    [of "with_server ''running'' [example_image 5 ''web-1'' ''available'' (Some 42)]"
        "[]" 42 "example_server ''running''"
        "[example_image 5 ''web-1'' ''available'' (Some 42)]" "''t''" "''web-3''"]
  by (auto simp add: with_server_def offline_def creating_for_def created_from_is_def
        example_image_def example_server_def opt_str_def create_calls_def prod_eq_iff)

text \<open>
  Claim C5. When the listing request of the in-progress check raises,
  \<^verbatim>\<open>check_snapshot_in_progress\<close> answers \<^verbatim>\<open>in_progress\<close> false (with the error
  text), and \<^verbatim>\<open>create_snapshot\<close> goes on to send the create request; its response is
  whatever the create request yields.
\<close>

theorem check_failure_does_not_block:
  assumes "servers_get_by_id env tr server_id = Inr (Some server)"
      and "images_get_all env (tr @ [Servers_get_by_id server_id]) ''snapshot'' = Inl e"
  shows "check_snapshot_in_progress env server_id (tr @ [Servers_get_by_id server_id]) =
           (Check_failed (str_exn e), tr @ [Servers_get_by_id server_id, Images_get_all ''snapshot''])
         \<and> \<not> in_progress (Check_failed (str_exn e))
         \<and> snd (create_snapshot env ts server_id description tr) =
           tr @ [Servers_get_by_id server_id, Images_get_all ''snapshot'',
                 Server_create_image (s_id server) description ''snapshot'']
         \<and> fst (create_snapshot env ts server_id description tr) =
             (case server_create_image env (tr @ [Servers_get_by_id server_id, Images_get_all ''snapshot''])
                     server description ''snapshot'' of
                Inl e' \<Rightarrow> failure ts (str_exn e')
              | Inr response \<Rightarrow>
                 json_response ts True
                   (JObj [(''snapshot_id'', JInt (i_id (r_image response))),
                          (''description'', JStr (i_description (r_image response))),
                          (''status'', JStr (i_status (r_image response))),
                          (''created'', opt_str (i_created (r_image response))),
                          (''disk_size'', i_disk_size (r_image response)),
                          (''image_size'', i_image_size (r_image response)),
                          (''action_id'', JInt (a_id (r_action response))),
                          (''already_in_progress'', JBool False),
                          (''message'', JStr ''Snapshot creation initiated'')])
                   JNull)"
  using assms
  by (auto simp add: create_snapshot_def create_snapshot_try_def check_snapshot_in_progress_def
        except_Exception_def Let_def split: sum.splits)

theorem check_failure_does_not_block_witness:
  "create_snapshot
     ((with_server ''running'' [])\<lparr>images_get_all := (\<lambda>tr k. Inl (ProviderError ''timed out''))\<rparr>)
     ''t'' 42 ''web-3'' []
   = (json_response ''t'' True
        (JObj [(''snapshot_id'', JInt 7),
               (''description'', JStr ''web-3''),
               (''status'', JStr ''creating''),
               (''created'', JNull),
               (''disk_size'', JInt 40),
               (''image_size'', JNull),
               (''action_id'', JInt 1),
               (''already_in_progress'', JBool False),
               (''message'', JStr ''Snapshot creation initiated'')])
        JNull,
      [Servers_get_by_id 42, Images_get_all ''snapshot'',
       Server_create_image 42 ''web-3'' ''snapshot''])
   \<and> check_snapshot_in_progress
       ((with_server ''running'' [])\<lparr>images_get_all := (\<lambda>tr k. Inl (ProviderError ''timed out''))\<rparr>)
       42 [Servers_get_by_id 42]
     = (Check_failed ''timed out'', [Servers_get_by_id 42, Images_get_all ''snapshot''])"
  using check_failure_does_not_block
    [of "(with_server ''running'' [])\<lparr>images_get_all := (\<lambda>tr k. Inl (ProviderError ''timed out''))\<rparr>"
        "[]" 42 "example_server ''running''" "ProviderError ''timed out''" "''t''" "''web-3''"]
  by (auto simp add: with_server_def offline_def example_server_def example_image_def opt_str_def
        prod_eq_iff)

section \<open>Waiting for a snapshot\<close>

lemma wait_loop_round:
  assumes "before_deadline env tr snapshot_id timeout k"
      and "polled_status env tr snapshot_id k = Some ''creating''"
  shows "wait_loop env ts snapshot_id timeout (time_time env tr) (after_rounds tr snapshot_id k) =
         wait_loop env ts snapshot_id timeout (time_time env tr) (after_rounds tr snapshot_id (Suc k))"
  using assms
  by (subst wait_loop.simps)
     (auto simp add: before_deadline_def polled_status_def split: sum.splits option.splits)

lemma wait_loop_rounds:
  "creating_rounds env tr snapshot_id timeout k \<Longrightarrow>
   wait_loop env ts snapshot_id timeout (time_time env tr) (tr @ [Time]) =
   wait_loop env ts snapshot_id timeout (time_time env tr) (after_rounds tr snapshot_id k)"
proof (induction k)
  case 0
  show ?case by simp
next
  case (Suc k)
  then show ?case using wait_loop_round [of env tr snapshot_id timeout k ts] by simp
qed

lemma failure_not_success: "jget ''success'' (failure ts msg) = Some (JBool False)"
  by (simp add: failure_def json_response_def)

lemma wait_loop_success:
  assumes "wait_loop env ts snapshot_id timeout start_time tr0 = Some res"
  shows "\<forall>r tr'. res = (Inr r, tr') \<longrightarrow> jget ''success'' r = Some (JBool True) \<longrightarrow>
           (\<exists>tr_p img. tr' = tr_p @ [Images_get_by_id snapshot_id, Time]
              \<and> images_get_by_id env tr_p snapshot_id = Inr (Some img)
              \<and> i_status img = ''available''
              \<and> r = snapshot_completed ts img
                      (py_trunc (time_time env (tr_p @ [Images_get_by_id snapshot_id])
                                 - start_time)))"
  using assms
proof (induction env ts snapshot_id timeout start_time tr0 res rule: wait_loop.raw_induct)
  case (1 f env ts snapshot_id timeout start_time tr res)
  show ?case
  proof (cases "time_time env tr - start_time < real_of_int timeout")
    case False
    with 1(2) show ?thesis
      by (auto simp add: timed_out_def failure_not_success)
  next
    case True
    note deadline = this
    show ?thesis
    proof (cases "images_get_by_id env (tr @ [Time]) snapshot_id")
      case (Inl e)
      with 1(2) deadline show ?thesis by auto
    next
      case (Inr found)
      show ?thesis
      proof (cases found)
        case None
        with 1(2) deadline Inr show ?thesis by (auto simp add: failure_not_success)
      next
        case (Some img)
        consider (available) "i_status img = ''available''"
          | (creating) "i_status img = ''creating''"
          | (other) "i_status img \<noteq> ''available''" "i_status img \<noteq> ''creating''"
          by blast
        then show ?thesis
        proof cases
          case available
          have "res = (Inr (snapshot_completed ts img
                       (py_trunc (time_time env ((tr @ [Time]) @ [Images_get_by_id snapshot_id])
                                  - start_time))),
                       (tr @ [Time]) @ [Images_get_by_id snapshot_id, Time])"
            using 1(2) deadline Inr Some available by simp
          with Inr Some available show ?thesis by blast
        next
          case creating
          then have "f env ts snapshot_id timeout start_time
                       (tr @ [Time, Images_get_by_id snapshot_id, Sleep 10]) = Some res"
            using 1(2) deadline Inr Some by simp
          moreover have "wait_loop env ts snapshot_id timeout start_time
                       (tr @ [Time, Images_get_by_id snapshot_id, Sleep 10]) = Some res"
            using 1(3) deadline Inr Some creating by (subst (asm) wait_loop.simps) simp
          ultimately show ?thesis by (rule 1(1))
        next
          case other
          with 1(2) deadline Inr Some show ?thesis by (auto simp add: failure_not_success)
        qed
      qed
    qed
  qed
qed (fact assms)

lemma wait_loop_at_round:
  assumes "creating_rounds env tr snapshot_id timeout k"
  shows "wait_for_snapshot env ts snapshot_id timeout tr =
         map_option (except_Exception ts)
           (wait_loop env ts snapshot_id timeout (time_time env tr) (after_rounds tr snapshot_id k))"
  using wait_loop_rounds [OF assms, of ts] by (simp add: wait_for_snapshot_def)

text \<open>
  Claim C3. \<^verbatim>\<open>wait_for_snapshot\<close> returns a success response only after a poll that
  answered \<^verbatim>\<open>available\<close>, and that response carries the size metrics and the elapsed
  seconds. After \<open>k\<close> rounds that polled \<^verbatim>\<open>creating\<close> before the deadline: a poll
  answering \<^verbatim>\<open>available\<close> ends the wait with that success; a poll answering a status
  that is neither \<^verbatim>\<open>creating\<close> nor \<^verbatim>\<open>available\<close> ends it with a failure naming
  the status; and a clock reading at or past the deadline ends it with the timeout
  failure. A failure response is never a success.
\<close>

theorem wait_for_snapshot_outcomes:
  "(\<forall>r tr'. wait_for_snapshot env ts snapshot_id timeout tr = Some (r, tr')
             \<and> jget ''success'' r = Some (JBool True) \<longrightarrow>
       (\<exists>tr_p img. tr' = tr_p @ [Images_get_by_id snapshot_id, Time]
          \<and> images_get_by_id env tr_p snapshot_id = Inr (Some img)
          \<and> i_status img = ''available''
          \<and> r = snapshot_completed ts img
                  (py_trunc (time_time env (tr_p @ [Images_get_by_id snapshot_id])
                             - time_time env tr))))
   \<and> (creating_rounds env tr snapshot_id timeout k
        \<and> before_deadline env tr snapshot_id timeout k
        \<and> images_get_by_id env (after_rounds tr snapshot_id k @ [Time]) snapshot_id = Inr (Some img)
        \<and> i_status img = ''available'' \<longrightarrow>
       wait_for_snapshot env ts snapshot_id timeout tr =
         Some (snapshot_completed ts img
                 (py_trunc (time_time env (after_rounds tr snapshot_id k
                                           @ [Time, Images_get_by_id snapshot_id])
                            - time_time env tr)),
               after_rounds tr snapshot_id k @ [Time, Images_get_by_id snapshot_id, Time]))
   \<and> (creating_rounds env tr snapshot_id timeout k
        \<and> before_deadline env tr snapshot_id timeout k
        \<and> images_get_by_id env (after_rounds tr snapshot_id k @ [Time]) snapshot_id = Inr (Some img)
        \<and> i_status img \<noteq> ''available'' \<and> i_status img \<noteq> ''creating'' \<longrightarrow>
       wait_for_snapshot env ts snapshot_id timeout tr =
         Some (failure ts (''Unexpected snapshot status: '' @ i_status img),
               after_rounds tr snapshot_id k @ [Time, Images_get_by_id snapshot_id]))
   \<and> (creating_rounds env tr snapshot_id timeout k
        \<and> \<not> before_deadline env tr snapshot_id timeout k \<longrightarrow>
       wait_for_snapshot env ts snapshot_id timeout tr =
         Some (failure ts (''Snapshot creation timed out after '' @ str_int timeout @ '' seconds''),
               after_rounds tr snapshot_id k @ [Time]))
   \<and> data_field ''disk_size'' (snapshot_completed ts img d) = Some (i_disk_size img)
   \<and> data_field ''image_size'' (snapshot_completed ts img d) = Some (i_image_size img)
   \<and> data_field ''duration_seconds'' (snapshot_completed ts img d) = Some (JInt d)
   \<and> jget ''success'' (failure ts msg) = Some (JBool False)"
proof -
  have safety: "\<exists>tr_p img. tr' = tr_p @ [Images_get_by_id snapshot_id, Time]
          \<and> images_get_by_id env tr_p snapshot_id = Inr (Some img)
          \<and> i_status img = ''available''
          \<and> r = snapshot_completed ts img
                  (py_trunc (time_time env (tr_p @ [Images_get_by_id snapshot_id])
                             - time_time env tr))"
    if ret: "wait_for_snapshot env ts snapshot_id timeout tr = Some (r, tr')"
      and ok: "jget ''success'' r = Some (JBool True)" for r tr'
  proof -
    from ret obtain res where
      loop: "wait_loop env ts snapshot_id timeout (time_time env tr) (tr @ [Time]) = Some res"
      and res: "except_Exception ts res = (r, tr')"
      by (auto simp add: wait_for_snapshot_def)
    obtain x tr'' where x: "res = (x, tr'')" by (cases res)
    show ?thesis
    proof (cases x)
      case (Inl e)
      with res x have "r = failure ts (str_exn e)"
        by (auto simp add: except_Exception_def)
      with ok show ?thesis
        by (simp add: failure_not_success)
    next
      case (Inr j)
      with res x have "res = (Inr r, tr')" by (simp add: except_Exception_def)
      with wait_loop_success [OF loop] ok show ?thesis by blast
    qed
  qed
  have available: "wait_for_snapshot env ts snapshot_id timeout tr =
         Some (snapshot_completed ts img
                 (py_trunc (time_time env (after_rounds tr snapshot_id k
                                           @ [Time, Images_get_by_id snapshot_id])
                            - time_time env tr)),
               after_rounds tr snapshot_id k @ [Time, Images_get_by_id snapshot_id, Time])"
    if "creating_rounds env tr snapshot_id timeout k"
      and "before_deadline env tr snapshot_id timeout k"
      and "images_get_by_id env (after_rounds tr snapshot_id k @ [Time]) snapshot_id = Inr (Some img)"
      and "i_status img = ''available''"
    using that(2-4) unfolding wait_loop_at_round [OF that(1)]
    by (subst wait_loop.simps) (simp add: before_deadline_def except_Exception_def)
  have unexpected: "wait_for_snapshot env ts snapshot_id timeout tr =
         Some (failure ts (''Unexpected snapshot status: '' @ i_status img),
               after_rounds tr snapshot_id k @ [Time, Images_get_by_id snapshot_id])"
    if "creating_rounds env tr snapshot_id timeout k"
      and "before_deadline env tr snapshot_id timeout k"
      and "images_get_by_id env (after_rounds tr snapshot_id k @ [Time]) snapshot_id = Inr (Some img)"
      and "i_status img \<noteq> ''available''" and "i_status img \<noteq> ''creating''"
    using that(2-5) unfolding wait_loop_at_round [OF that(1)]
    by (subst wait_loop.simps) (simp add: before_deadline_def except_Exception_def)
  have timeout: "wait_for_snapshot env ts snapshot_id timeout tr =
         Some (failure ts (''Snapshot creation timed out after '' @ str_int timeout @ '' seconds''),
               after_rounds tr snapshot_id k @ [Time])"
    if "creating_rounds env tr snapshot_id timeout k"
      and "\<not> before_deadline env tr snapshot_id timeout k"
    using that(2) unfolding wait_loop_at_round [OF that(1)]
    by (subst wait_loop.simps) (simp add: before_deadline_def except_Exception_def timed_out_def)
  have fields: "data_field ''disk_size'' (snapshot_completed ts img d) = Some (i_disk_size img)"
    "data_field ''image_size'' (snapshot_completed ts img d) = Some (i_image_size img)"
    "data_field ''duration_seconds'' (snapshot_completed ts img d) = Some (JInt d)"
    by (simp_all add: data_field_def snapshot_completed_def json_response_def)
  from safety available unexpected timeout fields failure_not_success show ?thesis
    by blast
qed

theorem wait_for_snapshot_outcomes_witness:
  "wait_for_snapshot (polled (\<lambda>k. if k < 2 then ''creating'' else ''available'')) ''t'' 7 900 []
     = Some (snapshot_completed ''t'' (example_image 7 ''web-1'' ''available'' (Some 42)) 20,
             [Time, Time, Images_get_by_id 7, Sleep 10, Time, Images_get_by_id 7, Sleep 10,
              Time, Images_get_by_id 7, Time])
   \<and> wait_for_snapshot (polled (\<lambda>k. if k < 1 then ''creating'' else ''failed'')) ''t'' 7 900 []
     = Some (failure ''t'' ''Unexpected snapshot status: failed'',
             [Time, Time, Images_get_by_id 7, Sleep 10, Time, Images_get_by_id 7])
   \<and> wait_for_snapshot (polled (\<lambda>k. ''creating'')) ''t'' 7 25 []
     = Some (failure ''t'' ''Snapshot creation timed out after 25 seconds'',
             [Time, Time, Images_get_by_id 7, Sleep 10, Time, Images_get_by_id 7, Sleep 10,
              Time, Images_get_by_id 7, Sleep 10, Time])
   \<and> jget ''success'' (failure ''t'' ''Snapshot creation timed out after 25 seconds'')
     = Some (JBool False)"
  using
    wait_for_snapshot_outcomes
      [where env = "polled (\<lambda>k. if k < 2 then ''creating'' else ''available'')"
         and ts = "''t''" and snapshot_id = 7 and timeout = 900 and tr = "[]"
         and k = "Suc (Suc 0)" and img = "example_image 7 ''web-1'' ''available'' (Some 42)"
         and d = 20 and msg = "''Snapshot creation timed out after 25 seconds''"]
    wait_for_snapshot_outcomes
      [where env = "polled (\<lambda>k. if k < 1 then ''creating'' else ''failed'')"
         and ts = "''t''" and snapshot_id = 7 and timeout = 900 and tr = "[]"
         and k = "Suc 0" and img = "example_image 7 ''web-1'' ''failed'' (Some 42)"
         and d = 0 and msg = "''''"]
    wait_for_snapshot_outcomes
      [where env = "polled (\<lambda>k. ''creating'')"
         and ts = "''t''" and snapshot_id = 7 and timeout = 25 and tr = "[]"
         and k = "Suc (Suc (Suc 0))" and img = "example_image 7 ''web-1'' ''creating'' (Some 42)"
         and d = 0 and msg = "''''"]
  by (simp add: polled_def offline_def before_deadline_def polled_status_def example_image_def
        py_trunc_def str_int_25)

text \<open>
  Claim C9. With a timeout of zero or less, \<^verbatim>\<open>wait_for_snapshot\<close> returns the timeout
  failure after reading the clock twice and without polling the provider, whatever state
  the snapshot is in. The hypothesis is that the second clock reading is not earlier than
  the first.
\<close>

theorem wait_for_snapshot_nonpositive_timeout:
  assumes "timeout \<le> 0"
      and "time_time env tr \<le> time_time env (tr @ [Time])"
  shows "wait_for_snapshot env ts snapshot_id timeout tr =
           Some (failure ts (''Snapshot creation timed out after '' @ str_int timeout @ '' seconds''),
                 tr @ [Time, Time])"
proof -
  have "\<not> time_time env (tr @ [Time]) - time_time env tr < real_of_int timeout"
    using assms by simp
  then show ?thesis
    unfolding wait_for_snapshot_def
    by (subst wait_loop.simps) (simp add: except_Exception_def timed_out_def)
qed

theorem wait_for_snapshot_nonpositive_timeout_witness:
  "wait_for_snapshot (polled (\<lambda>k. ''available'')) ''t'' 7 0 []
     = Some (failure ''t'' ''Snapshot creation timed out after 0 seconds'', [Time, Time])
   \<and> images_get_by_id (polled (\<lambda>k. ''available'')) [Time] 7
     = Inr (Some (example_image 7 ''web-1'' ''available'' (Some 42)))"
  using wait_for_snapshot_nonpositive_timeout
          [of 0 "polled (\<lambda>k. ''available'')" "[]" "''t''" 7]
  by (simp add: polled_def offline_def str_int_def str_nat.simps digit_char_def)

section \<open>Listing snapshots\<close>

lemma id_matches_value:
  assumes "\<not> id_given server_id \<or> server_id = Id_int n \<or> (server_id = Id_str s \<and> py_int s = Inr n)"
  shows "id_matches server_id img = Inr (id_given server_id \<and> created_from_is img n)"
  using assms
  by (cases server_id) (auto simp: id_matches_def created_from_is_def split: option.splits)

lemma collect_filters:
  assumes "name_given server_name \<or> id_given server_id"
      and "\<not> id_given server_id \<or> server_id = Id_int n \<or> (server_id = Id_str s \<and> py_int s = Inr n)"
  shows "collect server_name server_id images b =
           Inr \<lparr>snapshots = snapshots b,
                snapshots_with_prefix = snapshots_with_prefix b
                   @ map snapshot_info (filter (prefix_matches server_name) images),
                snapshots_for_server = snapshots_for_server b
                   @ map snapshot_info
                       (filter (\<lambda>img. id_given server_id \<and> created_from_is img n) images),
                all_snapshots_for_project = all_snapshots_for_project b
                   @ map snapshot_info images\<rparr>"
proof (induction images arbitrary: b)
  case Nil
  show ?case by simp
next
  case (Cons img images)
  show ?case
    using assms(1)
    by (simp add: Cons.IH id_matches_value [OF assms(2)] Let_def)
qed

text \<open>
  Claim C4. Called with a filter (a non-empty name or a non-zero, non-empty id) on a
  listing that answers, \<^verbatim>\<open>list_snapshots\<close> of \<^verbatim>\<open>hetzner_cloud.py\<close> returns the
  snapshots created from the server with that id if there are any; otherwise those whose
  description starts with the name followed by a hyphen if there are any; otherwise every
  snapshot of the project; and \<^verbatim>\<open>filter_used\<close> names the strategy that produced the
  list. The third hypothesis says that \<^verbatim>\<open>int(server_id)\<close> does not raise.
\<close>

theorem list_snapshots_precedence:
  assumes "images_get_all env tr ''snapshot'' = Inr images"
      and "name_given server_name \<or> id_given server_id"
      and "\<not> id_given server_id \<or> server_id = Id_int n \<or> (server_id = Id_str s \<and> py_int s = Inr n)"
      and "by_id = map snapshot_info (filter (\<lambda>img. id_given server_id \<and> created_from_is img n) images)"
      and "by_prefix = map snapshot_info (filter (prefix_matches server_name) images)"
      and "everything = map snapshot_info images"
  shows "list_snapshots env ts server_name server_id tr =
           (json_response ts True
              (JObj [(''snapshots'', JList (if by_id \<noteq> [] then by_id
                                            else if by_prefix \<noteq> [] then by_prefix
                                            else everything)),
                     (''count'', JInt (int (length (if by_id \<noteq> [] then by_id
                                                    else if by_prefix \<noteq> [] then by_prefix
                                                    else everything)))),
                     (''filter_used'', JStr (if by_id \<noteq> [] then ''server_id''
                                             else if by_prefix \<noteq> [] then ''hostname_prefix''
                                             else ''all_project''))])
              JNull,
            tr @ [Images_get_all ''snapshot''])"
proof -
  have no_id: "\<not> id_given server_id \<Longrightarrow> by_id = []"
    using assms(4) by simp
  have no_name: "\<not> name_given server_name \<Longrightarrow> by_prefix = []"
    using assms(5) by (cases server_name) (auto simp: prefix_matches_def)
  show ?thesis
    using assms(1,2) no_id no_name
    by (auto simp add: list_snapshots_def list_snapshots_try_def except_Exception_def
          collect_filters [OF assms(2,3)] no_buckets_def chosen_def filter_used_def
          assms(4)[symmetric] assms(5)[symmetric] assms(6)[symmetric])
qed

theorem list_snapshots_precedence_witness:
  "list_snapshots
     (with_server ''running''
        [example_image 5 ''web-1'' ''available'' (Some 42),
         example_image 6 ''db-1'' ''available'' (Some 43),
         example_image 8 ''web-old'' ''available'' None])
     ''t'' (Some ''web'') (Id_str ''42'') []
   = (json_response ''t'' True
        (JObj [(''snapshots'', JList [snapshot_info (example_image 5 ''web-1'' ''available'' (Some 42))]),
               (''count'', JInt 1),
               (''filter_used'', JStr ''server_id'')])
        JNull,
      [Images_get_all ''snapshot''])
   \<and> list_snapshots
     (with_server ''running''
        [example_image 5 ''web-1'' ''available'' (Some 42),
         example_image 6 ''db-1'' ''available'' (Some 43),
         example_image 8 ''web-old'' ''available'' None])
     ''t'' (Some ''web'') Id_none []
   = (json_response ''t'' True
        (JObj [(''snapshots'', JList [snapshot_info (example_image 5 ''web-1'' ''available'' (Some 42)),
                                      snapshot_info (example_image 8 ''web-old'' ''available'' None)]),
               (''count'', JInt 2),
               (''filter_used'', JStr ''hostname_prefix'')])
        JNull,
      [Images_get_all ''snapshot''])
   \<and> list_snapshots
     (with_server ''running''
        [example_image 5 ''web-1'' ''available'' (Some 42),
         example_image 6 ''db-1'' ''available'' (Some 43),
         example_image 8 ''web-old'' ''available'' None])
     ''t'' (Some ''mail'') (Id_int 99) []
   = (json_response ''t'' True
        (JObj [(''snapshots'', JList [snapshot_info (example_image 5 ''web-1'' ''available'' (Some 42)),
                                      snapshot_info (example_image 6 ''db-1'' ''available'' (Some 43)),
                                      snapshot_info (example_image 8 ''web-old'' ''available'' None)]),
               (''count'', JInt 3),
               (''filter_used'', JStr ''all_project'')])
        JNull,
      [Images_get_all ''snapshot''])"
  using
    list_snapshots_precedence
      [where env = "with_server ''running''
                      [example_image 5 ''web-1'' ''available'' (Some 42),
                       example_image 6 ''db-1'' ''available'' (Some 43),
                       example_image 8 ''web-old'' ''available'' None]"
         and tr = "[]" and ts = "''t''" and server_name = "Some ''web''"
         and server_id = "Id_str ''42''" and n = 42 and s = "''42''"
         and images = "[example_image 5 ''web-1'' ''available'' (Some 42),
                        example_image 6 ''db-1'' ''available'' (Some 43),
                        example_image 8 ''web-old'' ''available'' None]",
       OF _ _ _ refl refl refl]
    list_snapshots_precedence
      [where env = "with_server ''running''
                      [example_image 5 ''web-1'' ''available'' (Some 42),
                       example_image 6 ''db-1'' ''available'' (Some 43),
                       example_image 8 ''web-old'' ''available'' None]"
         and tr = "[]" and ts = "''t''" and server_name = "Some ''web''"
         and server_id = "Id_none" and n = 0 and s = "''''"
         and images = "[example_image 5 ''web-1'' ''available'' (Some 42),
                        example_image 6 ''db-1'' ''available'' (Some 43),
                        example_image 8 ''web-old'' ''available'' None]",
       OF _ _ _ refl refl refl]
    list_snapshots_precedence
      [where env = "with_server ''running''
                      [example_image 5 ''web-1'' ''available'' (Some 42),
                       example_image 6 ''db-1'' ''available'' (Some 43),
                       example_image 8 ''web-old'' ''available'' None]"
         and tr = "[]" and ts = "''t''" and server_name = "Some ''mail''"
         and server_id = "Id_int 99" and n = 99 and s = "''''"
         and images = "[example_image 5 ''web-1'' ''available'' (Some 42),
                        example_image 6 ''db-1'' ''available'' (Some 43),
                        example_image 8 ''web-old'' ''available'' None]",
       OF _ _ _ refl refl refl]
  by (simp add: with_server_def offline_def py_int_42 created_from_is_def prefix_matches_def
        example_image_def)

section \<open>Power on\<close>

text \<open>
  Claim C6. For a resource whose status is \<^verbatim>\<open>running\<close>, \<^verbatim>\<open>start_server\<close> of
  \<^verbatim>\<open>hetzner_cloud.py\<close> and \<^verbatim>\<open>start_vm\<close> of \<^verbatim>\<open>proxmox_api.py\<close> (for
  \<^verbatim>\<open>qemu\<close> and for \<^verbatim>\<open>lxc\<close>) return a success response saying that it is already
  running, having sent the status query only: no start request.
\<close>

theorem power_on_running_is_noop:
  "(servers_get_by_id env tr server_id = Inr (Some server) \<and> s_status server = ''running'' \<longrightarrow>
      start_server env ts server_id tr =
        (json_response ts True
           (JObj [(''server_id'', JInt (s_id server)),
                  (''name'', JStr (s_name server)),
                  (''status'', JStr ''running''),
                  (''message'', JStr ''Server is already running'')])
           JNull,
         tr @ [Servers_get_by_id server_id]))
   \<and> (connect_proxmox penv ptr api_url username token verify_ssl = Inr True
        \<and> (vm_type = ''qemu'' \<or> vm_type = ''lxc'')
        \<and> status_current_get penv (ptr @ [connect_call username token verify_ssl]) vm_type node vmid
            = Inr current
        \<and> map_of current ''status'' = Some (JStr ''running'') \<longrightarrow>
      start_vm penv ts api_url username token node vmid vm_type verify_ssl ptr =
        (pve_json_response ts True (JObj [(''status'', JStr ''running'')]) JNull
           (JStr (py_upper vm_type @ '' is already running'')),
         ptr @ [connect_call username token verify_ssl, Status_current_get vm_type node vmid]))"
  by (auto simp add: start_server_def start_server_try_def except_Exception_def STATUS_RUNNING_def
        start_vm_def start_vm_try_def start_kind_def pve_except_Exception_def getitem_def Let_def)

theorem power_on_running_is_noop_witness:
  "start_server (with_server ''running'' []) ''t'' 42 []
     = (json_response ''t'' True
          (JObj [(''server_id'', JInt 42), (''name'', JStr ''web''), (''status'', JStr ''running''),
                 (''message'', JStr ''Server is already running'')])
          JNull,
        [Servers_get_by_id 42])
   \<and> start_vm (pve_offline\<lparr>status_current_get := (\<lambda>tr k n i. Inr [(''status'', JStr ''running'')])\<rparr>)
        ''t'' ''https://pve:8006'' ''root@pam'' ''salt=secret'' ''pve1'' 100 ''qemu'' True []
     = (pve_json_response ''t'' True (JObj [(''status'', JStr ''running'')]) JNull
          (JStr ''QEMU is already running''),
        [ProxmoxAPI ''localhost'' ''root@pam'' ''salt'' ''secret'' ''https'' True,
         Status_current_get ''qemu'' ''pve1'' 100])
   \<and> start_vm (pve_offline\<lparr>status_current_get := (\<lambda>tr k n i. Inr [(''status'', JStr ''running'')])\<rparr>)
        ''t'' ''https://pve:8006'' ''root@pam'' ''salt=secret'' ''pve1'' 101 ''lxc'' True []
     = (pve_json_response ''t'' True (JObj [(''status'', JStr ''running'')]) JNull
          (JStr ''LXC is already running''),
        [ProxmoxAPI ''localhost'' ''root@pam'' ''salt'' ''secret'' ''https'' True,
         Status_current_get ''lxc'' ''pve1'' 101])"
  using
    power_on_running_is_noop
      [where env = "with_server ''running'' []" and tr = "[]" and server_id = 42
         and server = "example_server ''running''" and ts = "''t''"
         and penv = "pve_offline\<lparr>status_current_get := (\<lambda>tr k n i. Inr [(''status'', JStr ''running'')])\<rparr>"
         and ptr = "[]" and api_url = "''https://pve:8006''" and username = "''root@pam''"
         and token = "''salt=secret''" and verify_ssl = True and vm_type = "''qemu''"
         and node = "''pve1''" and vmid = 100 and current = "[(''status'', JStr ''running'')]"]
    power_on_running_is_noop
      [where env = "with_server ''running'' []" and tr = "[]" and server_id = 42
         and server = "example_server ''running''" and ts = "''t''"
         and penv = "pve_offline\<lparr>status_current_get := (\<lambda>tr k n i. Inr [(''status'', JStr ''running'')])\<rparr>"
         and ptr = "[]" and api_url = "''https://pve:8006''" and username = "''root@pam''"
         and token = "''salt=secret''" and verify_ssl = True and vm_type = "''lxc''"
         and node = "''pve1''" and vmid = 101 and current = "[(''status'', JStr ''running'')]"]
  by (simp add: with_server_def offline_def example_server_def pve_offline_def
        connect_proxmox_def connect_call_def token_name_def token_value_def upper_kinds)

section \<open>Listing the snapshots of a Proxmox guest\<close>

lemma snapshot_list_filter:
  "snapshot_list acc snaps = acc @ map snapshot_entry (filter named snaps)"
  by (induction snaps arbitrary: acc) auto

lemma named_entry_name:
  "named snap \<Longrightarrow> jget ''name'' (snapshot_entry snap) = Some (dget snap ''name'' JNull)
     \<and> dget snap ''name'' JNull \<noteq> JStr ''current'' \<and> dget snap ''name'' JNull \<noteq> JNull"
  by (auto simp: named_def snapshot_entry_def)

lemma pve_list_snapshots_cases:
  "(\<exists>msg. fst (pve_list_snapshots env ts api_url username token node vmid vm_type verify_ssl tr)
            = pve_failure ts msg)
   \<or> (\<exists>snaps. fst (pve_list_snapshots env ts api_url username token node vmid vm_type verify_ssl tr)
            = pve_json_response ts True
                (JObj [(''vmid'', JInt vmid), (''node'', JStr node), (''type'', JStr vm_type),
                       (''snapshots'', JList (snapshot_list [] snaps)),
                       (''count'', JInt (int (length (snapshot_list [] snaps))))])
                JNull JNull)"
proof (cases "connect_proxmox env tr api_url username token verify_ssl")
  case (Inl e)
  then show ?thesis
    by (auto simp add: pve_list_snapshots_def pve_list_snapshots_try_def pve_except_Exception_def)
next
  case (Inr ok)
  show ?thesis
  proof (cases ok)
    case False
    with Inr show ?thesis
      by (auto simp add: pve_list_snapshots_def pve_list_snapshots_try_def pve_except_Exception_def)
  next
    case True
    consider (qemu) "vm_type = ''qemu''" | (lxc) "vm_type = ''lxc''"
      | (other) "vm_type \<noteq> ''qemu''" "vm_type \<noteq> ''lxc''"
      by blast
    then show ?thesis
    proof cases
      case qemu
      with Inr True show ?thesis
        by (cases "snapshot_get env (tr @ [connect_call username token verify_ssl]) ''qemu'' node vmid")
           (auto simp add: pve_list_snapshots_def pve_list_snapshots_try_def pve_except_Exception_def)
    next
      case lxc
      with Inr True show ?thesis
        by (cases "snapshot_get env (tr @ [connect_call username token verify_ssl]) ''lxc'' node vmid")
           (auto simp add: pve_list_snapshots_def pve_list_snapshots_try_def pve_except_Exception_def)
    next
      case other
      with Inr True show ?thesis
        by (auto simp add: pve_list_snapshots_def pve_list_snapshots_try_def pve_except_Exception_def)
    qed
  qed
qed

text \<open>
  Claim C10. The response of \<^verbatim>\<open>list_snapshots\<close> of \<^verbatim>\<open>proxmox_api.py\<close> is either
  a failure without data, or its data holds a list of snapshots in which no entry is named
  \<^verbatim>\<open>current\<close> and no entry lacks a name, and a count equal to the length of that list.
\<close>

theorem pve_list_snapshots_named_only:
  "(jget ''success'' (fst (pve_list_snapshots env ts api_url username token node vmid vm_type verify_ssl tr))
       = Some (JBool False)
     \<and> jget ''data'' (fst (pve_list_snapshots env ts api_url username token node vmid vm_type verify_ssl tr))
       = None)
   \<or> (\<exists>entries.
        data_field ''snapshots''
            (fst (pve_list_snapshots env ts api_url username token node vmid vm_type verify_ssl tr))
          = Some (JList entries)
      \<and> data_field ''count''
            (fst (pve_list_snapshots env ts api_url username token node vmid vm_type verify_ssl tr))
          = Some (JInt (int (length entries)))
      \<and> (\<forall>entry \<in> set entries.
            jget ''name'' entry \<noteq> Some (JStr ''current'')
          \<and> jget ''name'' entry \<noteq> Some JNull
          \<and> jget ''name'' entry \<noteq> None))"
proof -
  let ?r = "fst (pve_list_snapshots env ts api_url username token node vmid vm_type verify_ssl tr)"
  from pve_list_snapshots_cases [of env ts api_url username token node vmid vm_type verify_ssl tr]
  consider (fail) msg where "?r = pve_failure ts msg"
    | (ok) snaps where "?r = pve_json_response ts True
                (JObj [(''vmid'', JInt vmid), (''node'', JStr node), (''type'', JStr vm_type),
                       (''snapshots'', JList (snapshot_list [] snaps)),
                       (''count'', JInt (int (length (snapshot_list [] snaps))))])
                JNull JNull"
    by blast
  then show ?thesis
  proof cases
    case fail
    then have "jget ''success'' ?r = Some (JBool False) \<and> jget ''data'' ?r = None"
      by (simp add: pve_failure_def pve_json_response_def)
    then show ?thesis by blast
  next
    case ok
    have fields: "data_field ''snapshots'' ?r = Some (JList (snapshot_list [] snaps))"
      "data_field ''count'' ?r = Some (JInt (int (length (snapshot_list [] snaps))))"
      by (simp_all add: ok pve_json_response_def data_field_def)
    have names: "\<forall>entry \<in> set (snapshot_list [] snaps).
            jget ''name'' entry \<noteq> Some (JStr ''current'')
          \<and> jget ''name'' entry \<noteq> Some JNull
          \<and> jget ''name'' entry \<noteq> None"
      using named_entry_name by (auto simp add: snapshot_list_filter)
    from fields names show ?thesis by blast
  qed
qed

theorem pve_list_snapshots_named_only_witness:
  "fst (pve_list_snapshots
          (pve_offline\<lparr>snapshot_get :=
             (\<lambda>tr k n i. Inr [[(''name'', JStr ''before-upgrade''), (''snaptime'', JInt 1700000000)],
                               [(''description'', JStr ''no name'')],
                               [(''name'', JStr ''current''), (''description'', JStr ''You are here!'')]])\<rparr>)
          ''t'' ''https://pve:8006'' ''root@pam'' ''salt=secret'' ''pve1'' 100 ''qemu'' True [])
   = pve_json_response ''t'' True
       (JObj [(''vmid'', JInt 100), (''node'', JStr ''pve1''), (''type'', JStr ''qemu''),
              (''snapshots'', JList [JObj [(''name'', JStr ''before-upgrade''),
                                           (''description'', JStr ''''),
                                           (''snaptime'', JInt 1700000000),
                                           (''vmstate'', JInt 0)]]),
              (''count'', JInt 1)])
       JNull JNull"
  using pve_list_snapshots_named_only
      [where env = "pve_offline\<lparr>snapshot_get :=
             (\<lambda>tr k n i. Inr [[(''name'', JStr ''before-upgrade''), (''snaptime'', JInt 1700000000)],
                               [(''description'', JStr ''no name'')],
                               [(''name'', JStr ''current''), (''description'', JStr ''You are here!'')]])\<rparr>"
         and ts = "''t''" and api_url = "''https://pve:8006''" and username = "''root@pam''"
         and token = "''salt=secret''" and node = "''pve1''" and vmid = 100 and vm_type = "''qemu''"
         and verify_ssl = True and tr = "[]"]
  by (simp add: pve_list_snapshots_def pve_list_snapshots_try_def pve_except_Exception_def
        pve_offline_def connect_proxmox_def named_def dget_def snapshot_entry_def)

section \<open>The dispatcher and uncaught exceptions\<close>

text \<open>
  Claim C7. Every error raised while a command is handled is to end in a failure response,
  and no exception is to leave the program. The command functions catch what is raised
  inside them, but the dispatcher of \<^verbatim>\<open>hetzner_cloud.py\<close> converts the id argument
  with \<^verbatim>\<open>int\<close> outside any \<^verbatim>\<open>try\<close> block: with a non-numeric id the
  \<^verbatim>\<open>ValueError\<close> ends the run, whatever the provider, and no response is printed.
\<close>

theorem main_non_numeric_id_uncaught:
  "main env ts [''hetzner_cloud.py'', ''start'', ''token'', ''abc'']
     = Some (Uncaught (ValueError (''invalid literal for int() with base 10: ''
                                   @ [CHR 0x27] @ ''abc'' @ [CHR 0x27])))"
  by (simp add: main_def py_int_def py_strip_def is_py_space_def parse_unsigned_def is_digit_def
        invalid_literal_def)

end
